theory Spec2Isabelle
  imports Main
begin

section \<open>Python values and the builtins the templates call\<close>

text \<open>
  The values that reach the templates are what \<^verbatim>\<open>json.loads\<close> produces from a Bedrock
  event or a gateway reply: \<^verbatim>\<open>None\<close>, booleans, integers, strings, lists and dicts with
  string keys. Floats are left out. A string is a list of characters, each read as one code
  point in the range 0..255. A dict is an association list in insertion order, as Python
  dicts keep it. The length limit CPython puts on converting very long digit strings is
  not part of the model.
\<close>

datatype pyval =
    PNone
  | PBool bool
  | PInt int
  | PStr string
  | PList "pyval list"
  | PDict "(string \<times> pyval) list"

type_synonym 'k pydict = "('k \<times> pyval) list"

text \<open>\<^verbatim>\<open>d.get(k)\<close>, \<^verbatim>\<open>k in d\<close> and \<^verbatim>\<open>d[k] = v\<close> on an insertion-ordered dict.\<close>

definition dict_get :: "('k \<times> 'v) list \<Rightarrow> 'k \<Rightarrow> 'v option" where
  "dict_get d k = map_of d k"

definition dict_keys :: "('k \<times> 'v) list \<Rightarrow> 'k list" where
  "dict_keys d = map fst d"

fun dict_set :: "('k \<times> 'v) list \<Rightarrow> 'k \<Rightarrow> 'v \<Rightarrow> ('k \<times> 'v) list" where
  "dict_set [] k v = [(k, v)]"
| "dict_set ((k', v') # d) k v = (if k' = k then (k, v) # d else (k', v') # dict_set d k v)"

subsection \<open>Characters and strings\<close>

definition ord :: "char \<Rightarrow> nat" where
  "ord c = of_char c"

definition hex_digit :: "nat \<Rightarrow> char" where
  "hex_digit n = ''0123456789abcdef'' ! (n mod 16)"

definition hex2 :: "char \<Rightarrow> string" where
  "hex2 c = [hex_digit (ord c div 16), hex_digit (ord c)]"

text \<open>\<^verbatim>\<open>str.lower()\<close> on code points below 256: A-Z and the accented capitals move by 32.\<close>

definition lower_char :: "char \<Rightarrow> char" where
  "lower_char c =
     (let n = ord c
      in if (65 \<le> n \<and> n \<le> 90) \<or> (192 \<le> n \<and> n \<le> 222 \<and> n \<noteq> 215) then char_of (n + 32) else c)"

definition py_lower :: "string \<Rightarrow> string" where
  "py_lower s = map lower_char s"

text \<open>Whitespace as \<^verbatim>\<open>str.strip()\<close> sees it, and as \<^verbatim>\<open>int()\<close> sees it around a number.\<close>

definition py_isspace :: "char \<Rightarrow> bool" where
  "py_isspace c = (let n = ord c in (9 \<le> n \<and> n \<le> 13) \<or> (28 \<le> n \<and> n \<le> 32) \<or> n = 133 \<or> n = 160)"

definition int_isspace :: "char \<Rightarrow> bool" where
  "int_isspace c = (let n = ord c in (9 \<le> n \<and> n \<le> 13) \<or> n = 32 \<or> n = 133 \<or> n = 160)"

definition py_strip :: "string \<Rightarrow> string" where
  "py_strip s = rev (dropWhile py_isspace (rev (dropWhile py_isspace s)))"

text \<open>\<^verbatim>\<open>s.split(sep)\<close> for a one-character separator.\<close>

fun py_split :: "string \<Rightarrow> char \<Rightarrow> string list" where
  "py_split [] sep = [[]]"
| "py_split (c # cs) sep =
     (if c = sep then [] # py_split cs sep
      else (case py_split cs sep of [] \<Rightarrow> [[c]] | w # ws \<Rightarrow> (c # w) # ws))"

subsection \<open>Integers and their decimal text\<close>

definition is_digit :: "char \<Rightarrow> bool" where
  "is_digit c = (48 \<le> ord c \<and> ord c \<le> 57)"

definition digit_val :: "char \<Rightarrow> int" where
  "digit_val c = int (ord c) - 48"

fun no_double_underscore :: "string \<Rightarrow> bool" where
  "no_double_underscore (a # b # cs) =
     (\<not> (a = CHR ''_'' \<and> b = CHR ''_'') \<and> no_double_underscore (b # cs))"
| "no_double_underscore _ = True"

text \<open>
  \<^verbatim>\<open>int(s)\<close> for a string, base 10: surrounding whitespace, an optional sign, then digits
  with single underscores allowed between digits. \<open>None\<close> stands for \<^verbatim>\<open>ValueError\<close>.
\<close>

definition int_of_str :: "string \<Rightarrow> int option" where
  "int_of_str s =
     (let t = dropWhile int_isspace s;
          neg = (t \<noteq> [] \<and> hd t = CHR ''-'');
          u = (if t \<noteq> [] \<and> (hd t = CHR ''+'' \<or> hd t = CHR ''-'') then tl t else t);
          body = takeWhile (\<lambda>c. is_digit c \<or> c = CHR ''_'') u;
          rest = dropWhile (\<lambda>c. is_digit c \<or> c = CHR ''_'') u
      in if body \<noteq> [] \<and> hd body \<noteq> CHR ''_'' \<and> last body \<noteq> CHR ''_''
            \<and> no_double_underscore body \<and> list_all int_isspace rest
         then (let n = foldl (\<lambda>a c. 10 * a + digit_val c) 0 (filter is_digit body)
               in Some (if neg then - n else n))
         else None)"

text \<open>
  \<^verbatim>\<open>int(v)\<close> on any value: \<open>None\<close> stands for the \<^verbatim>\<open>ValueError\<close> of a bad string and
  the \<^verbatim>\<open>TypeError\<close> of \<^verbatim>\<open>None\<close>, a list or a dict.
\<close>

fun py_int :: "pyval \<Rightarrow> int option" where
  "py_int (PInt i) = Some i"
| "py_int (PBool b) = Some (if b then 1 else 0)"
| "py_int (PStr s) = int_of_str s"
| "py_int _ = None"

fun nat_digits :: "nat \<Rightarrow> string" where
  "nat_digits n =
     (if n < 10 then [''0123456789'' ! n]
      else nat_digits (n div 10) @ [''0123456789'' ! (n mod 10)])"

declare nat_digits.simps [simp del]

definition str_of_int :: "int \<Rightarrow> string" where
  "str_of_int i = (if i < 0 then CHR ''-'' # nat_digits (nat (- i)) else nat_digits (nat i))"

subsection \<open>Truthiness, repr and str\<close>

fun py_bool :: "pyval \<Rightarrow> bool" where
  "py_bool PNone = False"
| "py_bool (PBool b) = b"
| "py_bool (PInt i) = (i \<noteq> 0)"
| "py_bool (PStr s) = (s \<noteq> [])"
| "py_bool (PList xs) = (xs \<noteq> [])"
| "py_bool (PDict kvs) = (kvs \<noteq> [])"

text \<open>\<^verbatim>\<open>sep.join(parts)\<close>.\<close>

fun join :: "string \<Rightarrow> string list \<Rightarrow> string" where
  "join sep [] = []"
| "join sep [x] = x"
| "join sep (x # y # ys) = x @ sep @ join sep (y # ys)"

text \<open>
  \<^verbatim>\<open>repr\<close> of a string: single quotes unless the text has a single quote and no double
  quote; the quote and the backslash are escaped, tab, newline and return are written
  with their letters, and every other non-printable code point as \<^verbatim>\<open>\xNN\<close>.
\<close>

definition printable :: "char \<Rightarrow> bool" where
  "printable c = (let n = ord c in (32 \<le> n \<and> n < 127) \<or> (161 \<le> n \<and> n \<noteq> 173))"

definition repr_char :: "char \<Rightarrow> char \<Rightarrow> string" where
  "repr_char q c =
     (if c = q \<or> c = CHR 0x5C then [CHR 0x5C, c]
      else if c = CHR 0x09 then [CHR 0x5C, CHR ''t'']
      else if c = CHR 0x0A then [CHR 0x5C, CHR ''n'']
      else if c = CHR 0x0D then [CHR 0x5C, CHR ''r'']
      else if printable c then [c]
      else [CHR 0x5C, CHR ''x''] @ hex2 c)"

definition repr_str :: "string \<Rightarrow> string" where
  "repr_str s =
     (let q = (if CHR 0x27 \<in> set s \<and> CHR 0x22 \<notin> set s then CHR 0x22 else CHR 0x27)
      in [q] @ concat (map (repr_char q) s) @ [q])"

fun py_repr :: "pyval \<Rightarrow> string" where
  "py_repr PNone = ''None''"
| "py_repr (PBool b) = (if b then ''True'' else ''False'')"
| "py_repr (PInt i) = str_of_int i"
| "py_repr (PStr s) = repr_str s"
| "py_repr (PList xs) = ''['' @ join '', '' (map py_repr xs) @ '']''"
| "py_repr (PDict kvs) =
     ''{'' @ join '', '' (map (\<lambda>kv. repr_str (fst kv) @ '': '' @ py_repr (snd kv)) kvs) @ ''}''"

fun py_str :: "pyval \<Rightarrow> string" where
  "py_str (PStr s) = s"
| "py_str v = py_repr v"

section \<open>The complete parameter mapper (templates/complete-parameter-mapper.py)\<close>

text \<open>
  One entry of a tool signature: the declared type, the required flag and the default
  (\<open>PNone\<close> for \<^verbatim>\<open>None\<close>). The description text is read by no code and is left out.
\<close>

record param_def =
  param_type :: string
  param_required :: bool
  param_default :: pyval

type_synonym tool_sig = "(string \<times> param_def) list"

text \<open>One element of the Bedrock parameter list, as \<^verbatim>\<open>.get('name')\<close> and
  \<^verbatim>\<open>.get('value')\<close> read it: a missing key and a null both give \<^verbatim>\<open>None\<close>.\<close>

record bedrock_param =
  bp_name :: "string option"
  bp_value :: pyval

datatype error =
    UnknownOperation string
  | UnknownTool string
  | MissingRequiredParameter "string list"
  | TypeCoercionError "string option" pyval string

definition pdef :: "string \<Rightarrow> bool \<Rightarrow> pyval \<Rightarrow> param_def" where
  "pdef t r d = \<lparr>param_type = t, param_required = r, param_default = d\<rparr>"

definition strs :: "string list \<Rightarrow> pyval" where
  "strs xs = PList (map PStr xs)"

definition GATEWAY_TOOL_SIGNATURES :: "(string \<times> tool_sig) list" where
  "GATEWAY_TOOL_SIGNATURES =
    [(''SecurityMCPTools___CheckSecurityServices'',
       [(''region'', pdef ''string'' False (PStr ''us-east-1'')),
        (''services'', pdef ''array'' False
           (strs [''guardduty'', ''inspector'', ''accessanalyzer'', ''securityhub'',
                  ''trustedadvisor'', ''macie''])),
        (''account_id'', pdef ''string'' False PNone),
        (''aws_profile'', pdef ''string'' False (PStr ''default'')),
        (''store_in_context'', pdef ''boolean'' False (PBool True)),
        (''debug'', pdef ''boolean'' False (PBool True))]),
     (''SecurityMCPTools___GetSecurityFindings'',
       [(''region'', pdef ''string'' False (PStr ''us-east-1'')),
        (''service'', pdef ''string'' True PNone),
        (''max_findings'', pdef ''integer'' False (PInt 100)),
        (''severity_filter'', pdef ''string'' False PNone),
        (''aws_profile'', pdef ''string'' False (PStr ''default'')),
        (''check_enabled'', pdef ''boolean'' False (PBool True))]),
     (''SecurityMCPTools___CheckStorageEncryption'',
       [(''region'', pdef ''string'' False (PStr ''us-east-1'')),
        (''services'', pdef ''array'' False
           (strs [''s3'', ''ebs'', ''rds'', ''dynamodb'', ''efs'', ''elasticache''])),
        (''include_unencrypted_only'', pdef ''boolean'' False (PBool False)),
        (''aws_profile'', pdef ''string'' False (PStr ''default'')),
        (''store_in_context'', pdef ''boolean'' False (PBool True))]),
     (''SecurityMCPTools___CheckNetworkSecurity'',
       [(''region'', pdef ''string'' False (PStr ''us-east-1'')),
        (''services'', pdef ''array'' False
           (strs [''elb'', ''vpc'', ''apigateway'', ''cloudfront''])),
        (''include_non_compliant_only'', pdef ''boolean'' False (PBool False)),
        (''aws_profile'', pdef ''string'' False (PStr ''default'')),
        (''store_in_context'', pdef ''boolean'' False (PBool True))]),
     (''SecurityMCPTools___ListServicesInRegion'',
       [(''region'', pdef ''string'' False (PStr ''us-east-1'')),
        (''aws_profile'', pdef ''string'' False (PStr ''default'')),
        (''store_in_context'', pdef ''boolean'' False (PBool True))]),
     (''SecurityMCPTools___GetStoredSecurityContext'',
       [(''region'', pdef ''string'' False (PStr ''us-east-1'')),
        (''detailed'', pdef ''boolean'' False (PBool False))])]"

definition OPERATION_TO_TOOL_MAP :: "(string \<times> string) list" where
  "OPERATION_TO_TOOL_MAP =
    [(''checkSecurityStatus'', ''SecurityMCPTools___CheckSecurityServices''),
     (''getSecurityFindings'', ''SecurityMCPTools___GetSecurityFindings''),
     (''checkStorageEncryption'', ''SecurityMCPTools___CheckStorageEncryption''),
     (''checkNetworkSecurity'', ''SecurityMCPTools___CheckNetworkSecurity''),
     (''listServicesInRegion'', ''SecurityMCPTools___ListServicesInRegion''),
     (''getStoredContext'', ''SecurityMCPTools___GetStoredSecurityContext'')]"

definition PARAMETER_NAME_MAP :: "(string \<times> (string \<times> string) list) list" where
  "PARAMETER_NAME_MAP =
    [(''SecurityMCPTools___CheckSecurityServices'',
       [(''region'', ''region''),
        (''service'', ''services''),
        (''services'', ''services''),
        (''accountId'', ''account_id''),
        (''account_id'', ''account_id''),
        (''awsProfile'', ''aws_profile''),
        (''aws_profile'', ''aws_profile''),
        (''storeInContext'', ''store_in_context''),
        (''store_in_context'', ''store_in_context''),
        (''debug'', ''debug'')]),
     (''SecurityMCPTools___GetSecurityFindings'',
       [(''region'', ''region''),
        (''service'', ''service''),
        (''maxFindings'', ''max_findings''),
        (''max_findings'', ''max_findings''),
        (''severityFilter'', ''severity_filter''),
        (''severity_filter'', ''severity_filter''),
        (''severity'', ''severity_filter''),
        (''awsProfile'', ''aws_profile''),
        (''aws_profile'', ''aws_profile''),
        (''checkEnabled'', ''check_enabled''),
        (''check_enabled'', ''check_enabled'')]),
     (''SecurityMCPTools___CheckStorageEncryption'',
       [(''region'', ''region''),
        (''service'', ''services''),
        (''services'', ''services''),
        (''includeUnencryptedOnly'', ''include_unencrypted_only''),
        (''include_unencrypted_only'', ''include_unencrypted_only''),
        (''unencryptedOnly'', ''include_unencrypted_only''),
        (''awsProfile'', ''aws_profile''),
        (''aws_profile'', ''aws_profile''),
        (''storeInContext'', ''store_in_context''),
        (''store_in_context'', ''store_in_context'')]),
     (''SecurityMCPTools___CheckNetworkSecurity'',
       [(''region'', ''region''),
        (''service'', ''services''),
        (''services'', ''services''),
        (''includeNonCompliantOnly'', ''include_non_compliant_only''),
        (''include_non_compliant_only'', ''include_non_compliant_only''),
        (''nonCompliantOnly'', ''include_non_compliant_only''),
        (''awsProfile'', ''aws_profile''),
        (''aws_profile'', ''aws_profile''),
        (''storeInContext'', ''store_in_context''),
        (''store_in_context'', ''store_in_context'')]),
     (''SecurityMCPTools___ListServicesInRegion'',
       [(''region'', ''region''),
        (''awsProfile'', ''aws_profile''),
        (''aws_profile'', ''aws_profile''),
        (''storeInContext'', ''store_in_context''),
        (''store_in_context'', ''store_in_context'')]),
     (''SecurityMCPTools___GetStoredSecurityContext'',
       [(''region'', ''region''),
        (''detailed'', ''detailed'')])]"

text \<open>
  The conversion inside the \<^verbatim>\<open>try\<close> block. \<open>None\<close> is a \<^verbatim>\<open>ValueError\<close> or
  \<^verbatim>\<open>TypeError\<close>, which the \<^verbatim>\<open>except\<close> clause of the loop catches.
\<close>

definition coerce :: "string \<Rightarrow> pyval \<Rightarrow> pyval option" where
  "coerce expected_type bedrock_value =
     (if expected_type = ''array'' then
        (case bedrock_value of
           PList xs \<Rightarrow> Some bedrock_value
         | PStr s \<Rightarrow>
             if CHR '','' \<in> set s
             then Some (PList (map (\<lambda>v. PStr (py_strip v)) (py_split s CHR '','')))
             else Some (PList [bedrock_value])
         | _ \<Rightarrow> Some (PList [PStr (py_str bedrock_value)]))
      else if expected_type = ''integer'' then map_option PInt (py_int bedrock_value)
      else if expected_type = ''boolean'' then
        (case bedrock_value of
           PBool b \<Rightarrow> Some bedrock_value
         | PStr s \<Rightarrow> Some (PBool (py_lower s \<in> set [''true'', ''1'', ''yes'', ''on'']))
         | _ \<Rightarrow> Some (PBool (py_bool bedrock_value)))
      else Some (PStr (py_str bedrock_value)))"

text \<open>
  The seeding loop, the body of the loop over the Bedrock parameters (each
  \<^verbatim>\<open>continue\<close> returns the dict unchanged; the printed warnings are not modelled), and
  the list of missing required parameters.
\<close>

definition seed_defaults :: "tool_sig \<Rightarrow> string pydict" where
  "seed_defaults tool_sig =
     foldl (\<lambda>mapped_params (param_name, param_def).
              if param_default param_def \<noteq> PNone
              then dict_set mapped_params param_name (param_default param_def)
              else mapped_params) [] tool_sig"

definition expected_type_of :: "tool_sig \<Rightarrow> string \<Rightarrow> string" where
  "expected_type_of tool_sig gateway_name =
     (case dict_get tool_sig gateway_name of None \<Rightarrow> ''string'' | Some d \<Rightarrow> param_type d)"

definition map_one ::
  "tool_sig \<Rightarrow> (string \<times> string) list \<Rightarrow> string pydict \<Rightarrow> bedrock_param \<Rightarrow> string pydict" where
  "map_one tool_sig param_map mapped_params bedrock_param =
     (case bp_name bedrock_param of
        None \<Rightarrow> mapped_params
      | Some bedrock_name \<Rightarrow>
          if bedrock_name = [] \<or> bp_value bedrock_param = PNone then mapped_params
          else (case dict_get param_map bedrock_name of
                  None \<Rightarrow> mapped_params
                | Some gateway_name \<Rightarrow>
                    if gateway_name = [] then mapped_params
                    else (case coerce (expected_type_of tool_sig gateway_name)
                                 (bp_value bedrock_param) of
                            None \<Rightarrow> mapped_params
                          | Some v \<Rightarrow> dict_set mapped_params gateway_name v)))"

definition missing_params :: "tool_sig \<Rightarrow> string pydict \<Rightarrow> string list" where
  "missing_params tool_sig mapped_params =
     map fst (filter (\<lambda>(param_name, param_def).
                param_required param_def
                \<and> (dict_get mapped_params param_name = None
                   \<or> dict_get mapped_params param_name = Some PNone)) tool_sig)"

text \<open>Everything after the three table lookups, for a given signature and alias map.\<close>

definition map_with ::
  "string \<Rightarrow> tool_sig \<Rightarrow> (string \<times> string) list \<Rightarrow> bedrock_param list
     \<Rightarrow> error + (string \<times> string pydict)" where
  "map_with tool_name tool_sig param_map bedrock_parameters =
     (let mapped_params = foldl (map_one tool_sig param_map) (seed_defaults tool_sig)
                            bedrock_parameters;
          missing = missing_params tool_sig mapped_params
      in if missing \<noteq> [] then Inl (MissingRequiredParameter missing)
         else Inr (tool_name, filter (\<lambda>(k, v). v \<noteq> PNone) mapped_params))"

text \<open>
  \<^verbatim>\<open>map_parameters\<close>, with \<open>param_map_of\<close> for \<^verbatim>\<open>PARAMETER_NAME_MAP.get(tool_name, {})\<close>.
  Each entry of the registry is a dict holding the key \<^verbatim>\<open>'parameters'\<close>, so
  \<^verbatim>\<open>not tool_sig\<close> is true only for a tool that is absent.
\<close>

definition param_map_of :: "string \<Rightarrow> (string \<times> string) list" where
  "param_map_of tool_name =
     (case dict_get PARAMETER_NAME_MAP tool_name of None \<Rightarrow> [] | Some m \<Rightarrow> m)"

definition map_parameters ::
  "string \<Rightarrow> bedrock_param list \<Rightarrow> error + (string \<times> string pydict)" where
  "map_parameters operation_id bedrock_parameters =
     (case dict_get OPERATION_TO_TOOL_MAP operation_id of
        None \<Rightarrow> Inl (UnknownOperation operation_id)
      | Some tool_name \<Rightarrow>
          if tool_name = [] then Inl (UnknownOperation operation_id)
          else (case dict_get GATEWAY_TOOL_SIGNATURES tool_name of
                  None \<Rightarrow> Inl (UnknownTool tool_name)
                | Some tool_sig \<Rightarrow>
                    map_with tool_name tool_sig (param_map_of tool_name) bedrock_parameters))"

text \<open>Two dicts are equal in Python when they hold the same keys with the same values,
  whatever the insertion order.\<close>

definition dict_eq :: "('k \<times> 'v) list \<Rightarrow> ('k \<times> 'v) list \<Rightarrow> bool" where
  "dict_eq a b = (set (dict_keys a) = set (dict_keys b)
                   \<and> (\<forall>k \<in> set (dict_keys a). dict_get a k = dict_get b k))"

definition bp :: "string \<Rightarrow> pyval \<Rightarrow> bedrock_param" where
  "bp n v = \<lparr>bp_name = Some n, bp_value = v\<rparr>"

section \<open>The basic parameter mapper (templates/parameter-mapper.py)\<close>

text \<open>
  The earlier template has its own three tables and its own \<^verbatim>\<open>map_parameters\<close>. It does
  not skip a parameter without a name, so a key of its result may be \<^verbatim>\<open>None\<close>; it has
  no \<^verbatim>\<open>try\<close> block, so a failing \<^verbatim>\<open>int()\<close> leaves the function as an exception; and it
  reports the first missing required parameter only.
\<close>

definition GATEWAY_TOOL_SIGNATURES_basic :: "(string \<times> tool_sig) list" where
  "GATEWAY_TOOL_SIGNATURES_basic =
    [(''SecurityMCPTools___CheckSecurityServices'',
       [(''region'', pdef ''string'' True (PStr ''us-east-1'')),
        (''service_names'', pdef ''array'' False (PList []))]),
     (''SecurityMCPTools___GetSecurityFindings'',
       [(''region'', pdef ''string'' True (PStr ''us-east-1'')),
        (''severity'', pdef ''string'' False (PStr ''ALL'')),
        (''service'', pdef ''string'' False PNone),
        (''limit'', pdef ''integer'' False (PInt 100))]),
     (''SecurityMCPTools___CheckStorageEncryption'',
       [(''region'', pdef ''string'' True (PStr ''us-east-1'')),
        (''service_type'', pdef ''string'' False (PStr ''ALL''))])]"

definition OPERATION_TO_TOOL_MAP_basic :: "(string \<times> string) list" where
  "OPERATION_TO_TOOL_MAP_basic =
    [(''checkSecurityStatus'', ''SecurityMCPTools___CheckSecurityServices''),
     (''getSecurityFindings'', ''SecurityMCPTools___GetSecurityFindings''),
     (''checkStorageEncryption'', ''SecurityMCPTools___CheckStorageEncryption'')]"

definition PARAMETER_NAME_MAP_basic :: "(string \<times> (string \<times> string) list) list" where
  "PARAMETER_NAME_MAP_basic =
    [(''SecurityMCPTools___CheckSecurityServices'',
       [(''region'', ''region''),
        (''service'', ''service_names''),
        (''services'', ''service_names'')]),
     (''SecurityMCPTools___GetSecurityFindings'',
       [(''region'', ''region''),
        (''severity'', ''severity''),
        (''service'', ''service''),
        (''limit'', ''limit'')]),
     (''SecurityMCPTools___CheckStorageEncryption'',
       [(''region'', ''region''),
        (''serviceType'', ''service_type''),
        (''service_type'', ''service_type'')])]"

definition seed_defaults_basic :: "tool_sig \<Rightarrow> (string option) pydict" where
  "seed_defaults_basic tool_sig =
     foldl (\<lambda>mapped_params (param_name, param_def).
              if param_default param_def \<noteq> PNone
              then dict_set mapped_params (Some param_name) (param_default param_def)
              else mapped_params) [] tool_sig"

definition map_one_basic ::
  "tool_sig \<Rightarrow> (string \<times> string) list \<Rightarrow> (string option) pydict \<Rightarrow> bedrock_param
     \<Rightarrow> error + (string option) pydict" where
  "map_one_basic tool_sig param_map mapped_params bedrock_param =
     (let bedrock_name = bp_name bedrock_param;
          bedrock_value = bp_value bedrock_param;
          gateway_name =
            (case bedrock_name of
               None \<Rightarrow> None
             | Some n \<Rightarrow> (case dict_get param_map n of None \<Rightarrow> Some n | Some g \<Rightarrow> Some g));
          expected_type =
            (case gateway_name of None \<Rightarrow> ''string'' | Some g \<Rightarrow> expected_type_of tool_sig g)
      in if expected_type = ''array'' then
           Inr (dict_set mapped_params gateway_name
                  (case bedrock_value of PList xs \<Rightarrow> bedrock_value | _ \<Rightarrow> PList [bedrock_value]))
         else if expected_type = ''integer'' then
           (case py_int bedrock_value of
              None \<Rightarrow> Inl (TypeCoercionError bedrock_name bedrock_value ''integer'')
            | Some i \<Rightarrow> Inr (dict_set mapped_params gateway_name (PInt i)))
         else if expected_type = ''boolean'' then
           Inr (dict_set mapped_params gateway_name
                  (case bedrock_value of
                     PStr s \<Rightarrow> PBool (py_lower s \<in> set [''true'', ''1'', ''yes''])
                   | _ \<Rightarrow> PBool (py_bool bedrock_value)))
         else Inr (dict_set mapped_params gateway_name (PStr (py_str bedrock_value))))"

fun map_loop_basic ::
  "tool_sig \<Rightarrow> (string \<times> string) list \<Rightarrow> (string option) pydict \<Rightarrow> bedrock_param list
     \<Rightarrow> error + (string option) pydict" where
  "map_loop_basic tool_sig param_map mapped_params [] = Inr mapped_params"
| "map_loop_basic tool_sig param_map mapped_params (p # ps) =
     (case map_one_basic tool_sig param_map mapped_params p of
        Inl e \<Rightarrow> Inl e
      | Inr m \<Rightarrow> map_loop_basic tool_sig param_map m ps)"

definition map_with_basic ::
  "string \<Rightarrow> tool_sig \<Rightarrow> (string \<times> string) list \<Rightarrow> bedrock_param list
     \<Rightarrow> error + (string \<times> (string option) pydict)" where
  "map_with_basic tool_name tool_sig param_map bedrock_parameters =
     (case map_loop_basic tool_sig param_map (seed_defaults_basic tool_sig) bedrock_parameters of
        Inl e \<Rightarrow> Inl e
      | Inr mapped_params \<Rightarrow>
          (case filter (\<lambda>(param_name, param_def).
                   param_required param_def \<and> dict_get mapped_params (Some param_name) = None)
                  tool_sig of
             [] \<Rightarrow> Inr (tool_name, mapped_params)
           | (param_name, param_def) # _ \<Rightarrow> Inl (MissingRequiredParameter [param_name])))"

definition param_map_of_basic :: "string \<Rightarrow> (string \<times> string) list" where
  "param_map_of_basic tool_name =
     (case dict_get PARAMETER_NAME_MAP_basic tool_name of None \<Rightarrow> [] | Some m \<Rightarrow> m)"

definition map_parameters_basic ::
  "string \<Rightarrow> bedrock_param list \<Rightarrow> error + (string \<times> (string option) pydict)" where
  "map_parameters_basic operation_id bedrock_parameters =
     (case dict_get OPERATION_TO_TOOL_MAP_basic operation_id of
        None \<Rightarrow> Inl (UnknownOperation operation_id)
      | Some tool_name \<Rightarrow>
          if tool_name = [] then Inl (UnknownOperation operation_id)
          else (case dict_get GATEWAY_TOOL_SIGNATURES_basic tool_name of
                  None \<Rightarrow> Inl (UnknownTool tool_name)
                | Some tool_sig \<Rightarrow>
                    map_with_basic tool_name tool_sig (param_map_of_basic tool_name)
                      bedrock_parameters))"

section \<open>The gateway proxy Lambda (templates/gateway-proxy-lambda-fixed.py)\<close>

text \<open>
  \<^verbatim>\<open>json.dumps\<close> with its defaults: separators \<^verbatim>\<open>", "\<close> and \<^verbatim>\<open>": "\<close>, and every
  character outside the printable ASCII range escaped.
\<close>

definition json_escape_char :: "char \<Rightarrow> string" where
  "json_escape_char c =
     (if c = CHR 0x22 then [CHR 0x5C, CHR 0x22]
      else if c = CHR 0x5C then [CHR 0x5C, CHR 0x5C]
      else if c = CHR 0x0A then [CHR 0x5C, CHR ''n'']
      else if c = CHR 0x0D then [CHR 0x5C, CHR ''r'']
      else if c = CHR 0x09 then [CHR 0x5C, CHR ''t'']
      else if c = CHR 0x08 then [CHR 0x5C, CHR ''b'']
      else if c = CHR 0x0C then [CHR 0x5C, CHR ''f'']
      else if 32 \<le> ord c \<and> ord c \<le> 126 then [c]
      else [CHR 0x5C, CHR ''u'', CHR ''0'', CHR ''0''] @ hex2 c)"

definition json_string :: "string \<Rightarrow> string" where
  "json_string s = [CHR 0x22] @ concat (map json_escape_char s) @ [CHR 0x22]"

fun json_dumps :: "pyval \<Rightarrow> string" where
  "json_dumps PNone = ''null''"
| "json_dumps (PBool b) = (if b then ''true'' else ''false'')"
| "json_dumps (PInt i) = str_of_int i"
| "json_dumps (PStr s) = json_string s"
| "json_dumps (PList xs) = ''['' @ join '', '' (map json_dumps xs) @ '']''"
| "json_dumps (PDict kvs) =
     ''{'' @ join '', '' (map (\<lambda>kv. json_string (fst kv) @ '': '' @ json_dumps (snd kv)) kvs) @ ''}''"

text \<open>\<^verbatim>\<open>event.get(key, '')\<close>.\<close>

definition event_get :: "string pydict \<Rightarrow> string \<Rightarrow> pyval" where
  "event_get event k = (case dict_get event k of None \<Rightarrow> PStr [] | Some v \<Rightarrow> v)"

definition success_response :: "string pydict \<Rightarrow> pyval \<Rightarrow> pyval" where
  "success_response event data =
     PDict [(''messageVersion'', PStr ''1.0''),
            (''response'', PDict
               [(''actionGroup'', event_get event ''actionGroup''),
                (''apiPath'', event_get event ''apiPath''),
                (''httpMethod'', event_get event ''httpMethod''),
                (''httpStatusCode'', PInt 200),
                (''responseBody'', PDict
                   [(''application/json'', PDict
                       [(''body'', PStr (json_dumps data))])])])]"

definition error_response :: "string pydict \<Rightarrow> string \<Rightarrow> pyval" where
  "error_response event error_msg =
     PDict [(''messageVersion'', PStr ''1.0''),
            (''response'', PDict
               [(''actionGroup'', event_get event ''actionGroup''),
                (''apiPath'', event_get event ''apiPath''),
                (''httpMethod'', event_get event ''httpMethod''),
                (''httpStatusCode'', PInt 500),
                (''responseBody'', PDict
                   [(''application/json'', PDict
                       [(''body'', PStr (json_dumps (PDict [(''error'', PStr error_msg)])))])])])]"

text \<open>\<^verbatim>\<open>v[k]\<close> on a value, and the same along a path of keys; \<open>None\<close> when the value is
  not a dict or the key is absent.\<close>

fun field :: "pyval \<Rightarrow> string \<Rightarrow> pyval option" where
  "field (PDict kvs) k = dict_get kvs k"
| "field _ k = None"

fun field_path :: "pyval \<Rightarrow> string list \<Rightarrow> pyval option" where
  "field_path v [] = Some v"
| "field_path v (k # ks) = (case field v k of None \<Rightarrow> None | Some w \<Rightarrow> field_path w ks)"

text \<open>The tool-name lookup inside \<^verbatim>\<open>lambda_handler\<close>:
  \<^verbatim>\<open>tool_name_map.get(operation_id, f'SecurityMCPTools___{operation_id}')\<close>.\<close>

definition tool_name_map :: "(string \<times> string) list" where
  "tool_name_map =
    [(''get_security_status'', ''SecurityMCPTools___CheckSecurityServices''),
     (''get_security_findings'', ''SecurityMCPTools___GetSecurityFindings''),
     (''check_storage_encryption'', ''SecurityMCPTools___CheckStorageEncryption''),
     (''list_services_in_region'', ''SecurityMCPTools___ListServicesInRegion''),
     (''check_network_security'', ''SecurityMCPTools___CheckNetworkSecurity'')]"

definition mcp_tool_name :: "string \<Rightarrow> string" where
  "mcp_tool_name operation_id =
     (case dict_get tool_name_map operation_id of
        None \<Rightarrow> ''SecurityMCPTools___'' @ operation_id
      | Some t \<Rightarrow> t)"

section \<open>Consistency of the static tables\<close>

text \<open>
  What the proofs need of a signature and its alias map: parameter names are unique, every
  alias is a non-empty name that leads to a non-empty declared parameter name, and every
  declared parameter name is an alias of itself or of another spelling.
\<close>

definition tables_consistent :: "tool_sig \<Rightarrow> (string \<times> string) list \<Rightarrow> bool" where
  "tables_consistent tool_sig param_map =
     (distinct (dict_keys tool_sig)
      \<and> list_all (\<lambda>(n, g). n \<noteq> [] \<and> g \<noteq> [] \<and> g \<in> set (dict_keys tool_sig)) param_map
      \<and> list_all (\<lambda>k. k \<in> set (dict_keys param_map)) (dict_keys tool_sig))"

definition operation_row_ok :: "string \<times> string \<Rightarrow> bool" where
  "operation_row_ok row =
     (snd row \<noteq> []
      \<and> (case dict_get GATEWAY_TOOL_SIGNATURES (snd row) of
           None \<Rightarrow> False
         | Some tool_sig \<Rightarrow> tables_consistent tool_sig (param_map_of (snd row))))"

text \<open>The required parameters of a signature whose default is \<^verbatim>\<open>None\<close>.\<close>

definition required_without_default :: "tool_sig \<Rightarrow> string list" where
  "required_without_default tool_sig =
     map fst (filter (\<lambda>(param_name, param_def).
                param_required param_def \<and> param_default param_def = PNone) tool_sig)"

text \<open>
  A row of the basic operation map is in order when its tool is registered, no required
  parameter of the tool lacks a default, and the call with no inbound parameter succeeds.
\<close>

definition operation_row_ok_basic :: "string \<times> string \<Rightarrow> bool" where
  "operation_row_ok_basic row =
     (snd row \<noteq> []
      \<and> (case dict_get GATEWAY_TOOL_SIGNATURES_basic (snd row) of
           None \<Rightarrow> False
         | Some tool_sig \<Rightarrow>
             required_without_default tool_sig = []
             \<and> (case map_parameters_basic (fst row) [] of
                  Inl e \<Rightarrow> False
                | Inr r \<Rightarrow> fst r = snd row)))"

text \<open>The declared types that occur in a registry.\<close>

definition declared_types :: "(string \<times> tool_sig) list \<Rightarrow> string list" where
  "declared_types registry =
     concat (map (\<lambda>(tool_name, tool_sig). map (\<lambda>(n, d). param_type d) tool_sig) registry)"

section \<open>The coercion rules as the specification words them\<close>

text \<open>
  These two definitions follow the wording of the specification, not the code; the
  theorems on boolean and array coercion compare the code with them.
  Boolean: a boolean is used as it is; a string is true exactly when, ignoring case, it is
  one of \<^verbatim>\<open>true\<close>, \<^verbatim>\<open>1\<close>, \<^verbatim>\<open>yes\<close>, \<^verbatim>\<open>on\<close>; any other value converts by
  truthiness.
  Array: a list is used as it is; a string with a comma is split on commas and each segment
  trimmed; anything else becomes a one-element list (of its text).
\<close>

definition spec_boolean :: "pyval \<Rightarrow> bool" where
  "spec_boolean v =
     (case v of
        PBool b \<Rightarrow> b
      | PStr s \<Rightarrow> py_lower s \<in> {''true'', ''1'', ''yes'', ''on''}
      | _ \<Rightarrow> py_bool v)"

definition spec_array :: "pyval \<Rightarrow> pyval" where
  "spec_array v =
     (case v of
        PList xs \<Rightarrow> v
      | PStr s \<Rightarrow>
          if CHR '','' \<in> set s
          then PList (map (\<lambda>seg. PStr (py_strip seg)) (py_split s CHR '',''))
          else PList [PStr s]
      | _ \<Rightarrow> PList [PStr (py_str v)])"

section \<open>Dictionary and table lemmas\<close>

lemma dict_get_dict_set:
  "dict_get (dict_set d k v) k' = (if k' = k then Some v else dict_get d k')"
  by (induction d) (auto simp: dict_get_def)

lemma dict_keys_dict_set_list:
  "dict_keys (dict_set d k v) = (if k \<in> set (dict_keys d) then dict_keys d else dict_keys d @ [k])"
  by (induction d) (force simp: dict_keys_def)+

lemma dict_keys_dict_set: "set (dict_keys (dict_set d k v)) = insert k (set (dict_keys d))"
  by (auto simp: dict_keys_dict_set_list)

lemma dict_set_fresh: "k \<notin> set (dict_keys d) \<Longrightarrow> dict_set d k v = d @ [(k, v)]"
  by (induction d) (auto simp: dict_keys_def)

lemma dict_get_None_iff: "dict_get d k = None \<longleftrightarrow> k \<notin> set (dict_keys d)"
  by (simp add: dict_get_def dict_keys_def map_of_eq_None_iff)

lemma operation_rows_ok: "list_all operation_row_ok OPERATION_TO_TOOL_MAP"
  by code_simp

lemma known_operation:
  assumes "dict_get OPERATION_TO_TOOL_MAP op = Some tool"
  shows "\<exists>sig. dict_get GATEWAY_TOOL_SIGNATURES tool = Some sig
           \<and> tool \<noteq> [] \<and> tables_consistent sig (param_map_of tool)"
proof -
  from assms have "(op, tool) \<in> set OPERATION_TO_TOOL_MAP"
    by (simp add: dict_get_def map_of_SomeD)
  with operation_rows_ok have "operation_row_ok (op, tool)"
    by (simp add: list_all_iff)
  then show ?thesis
    by (simp add: operation_row_ok_def split: option.splits)
qed

lemma map_parameters_known:
  assumes "dict_get OPERATION_TO_TOOL_MAP op = Some tool"
    and "dict_get GATEWAY_TOOL_SIGNATURES tool = Some sig"
    and "tool \<noteq> []"
  shows "map_parameters op ps = map_with tool sig (param_map_of tool) ps"
  using assms by (simp add: map_parameters_def)

lemma dict_get_absent: "k \<notin> set (dict_keys d) \<Longrightarrow> dict_get d k = None"
  by (simp add: dict_get_None_iff)

section \<open>The response envelope\<close>

text \<open>
  C1. Every envelope built by \<^verbatim>\<open>success_response\<close> and \<^verbatim>\<open>error_response\<close> carries
  \<^verbatim>\<open>messageVersion\<close> \<^verbatim>\<open>'1.0'\<close>, and the \<^verbatim>\<open>body\<close> under
  \<^verbatim>\<open>response.responseBody['application/json']\<close> is a string, the \<^verbatim>\<open>json.dumps\<close> text of
  the data (of \<^verbatim>\<open>{'error': error_msg}\<close> for an error), for every event and every argument.
\<close>

theorem response_body_is_string:
  "field (success_response event data) ''messageVersion'' = Some (PStr ''1.0'')
   \<and> field_path (success_response event data)
        [''response'', ''responseBody'', ''application/json'', ''body'']
      = Some (PStr (json_dumps data))
   \<and> field (error_response event error_msg) ''messageVersion'' = Some (PStr ''1.0'')
   \<and> field_path (error_response event error_msg)
        [''response'', ''responseBody'', ''application/json'', ''body'']
      = Some (PStr (json_dumps (PDict [(''error'', PStr error_msg)])))"
  by (simp add: success_response_def error_response_def dict_get_def)

section \<open>Operation and tool resolution\<close>

text \<open>
  C9. Every tool name in \<^verbatim>\<open>OPERATION_TO_TOOL_MAP\<close> is a key of
  \<^verbatim>\<open>GATEWAY_TOOL_SIGNATURES\<close>, and \<^verbatim>\<open>map_parameters\<close> of the complete mapper never
  ends in the unknown-tool error, whatever the operation and the parameter list.
\<close>

theorem unknown_tool_unreachable:
  "(\<forall>op tool. dict_get OPERATION_TO_TOOL_MAP op = Some tool
       \<longrightarrow> tool \<in> set (dict_keys GATEWAY_TOOL_SIGNATURES))
   \<and> (\<forall>op ps tool. map_parameters op ps \<noteq> Inl (UnknownTool tool))"
proof (intro conjI allI impI)
  fix op tool
  assume "dict_get OPERATION_TO_TOOL_MAP op = Some tool"
  from known_operation [OF this] obtain sig where "dict_get GATEWAY_TOOL_SIGNATURES tool = Some sig"
    by blast
  then show "tool \<in> set (dict_keys GATEWAY_TOOL_SIGNATURES)"
    using dict_get_None_iff [of GATEWAY_TOOL_SIGNATURES tool] by simp
next
  fix op ps tool
  show "map_parameters op ps \<noteq> Inl (UnknownTool tool)"
  proof (cases "dict_get OPERATION_TO_TOOL_MAP op")
    case None
    then show ?thesis by (simp add: map_parameters_def)
  next
    case (Some t)
    from known_operation [OF Some] obtain sig where
      "dict_get GATEWAY_TOOL_SIGNATURES t = Some sig" "t \<noteq> []"
      by blast
    with Some have "map_parameters op ps = map_with t sig (param_map_of t) ps"
      by (rule map_parameters_known)
    then show ?thesis by (simp add: map_with_def Let_def)
  qed
qed

theorem unknown_tool_unreachable_witness:
  "dict_get OPERATION_TO_TOOL_MAP ''getStoredContext'' = Some ''SecurityMCPTools___GetStoredSecurityContext''
   \<and> ''SecurityMCPTools___GetStoredSecurityContext'' \<in> set (dict_keys GATEWAY_TOOL_SIGNATURES)
   \<and> map_parameters ''getStoredContext'' [] \<noteq> Inl (UnknownTool ''SecurityMCPTools___GetStoredSecurityContext'')"
proof -
  have h: "dict_get OPERATION_TO_TOOL_MAP ''getStoredContext'' = Some ''SecurityMCPTools___GetStoredSecurityContext''"
    by code_simp
  with unknown_tool_unreachable show ?thesis by blast
qed

text \<open>
  C5, as stated, fails in the gateway proxy Lambda: for an operation absent from its
  \<^verbatim>\<open>tool_name_map\<close> the lookup falls back to a tool name built from the operation id.
\<close>

theorem gateway_lambda_fallback_counterexample:
  "''bogusOperation'' \<notin> set (dict_keys tool_name_map)
   \<and> mcp_tool_name ''bogusOperation'' = ''SecurityMCPTools___bogusOperation''"
  by code_simp

text \<open>
  C5, amended. For an operation id that is no key of the operation map, \<^verbatim>\<open>map_parameters\<close>
  of the complete mapper and of the basic mapper both fail with the unknown-operation
  error, whatever the parameter list; the tool-name lookup of the gateway proxy Lambda
  instead answers \<^verbatim>\<open>SecurityMCPTools___\<close> followed by the operation id.
\<close>

theorem unknown_operation_fails:
  "(op \<notin> set (dict_keys OPERATION_TO_TOOL_MAP)
      \<longrightarrow> map_parameters op ps = Inl (UnknownOperation op))
   \<and> (op \<notin> set (dict_keys OPERATION_TO_TOOL_MAP_basic)
      \<longrightarrow> map_parameters_basic op ps = Inl (UnknownOperation op))
   \<and> (op \<notin> set (dict_keys tool_name_map)
      \<longrightarrow> mcp_tool_name op = ''SecurityMCPTools___'' @ op)"
  by (simp add: map_parameters_def map_parameters_basic_def mcp_tool_name_def dict_get_absent)

theorem unknown_operation_fails_witness:
  "''bogusOperation'' \<notin> set (dict_keys OPERATION_TO_TOOL_MAP)
   \<and> ''bogusOperation'' \<notin> set (dict_keys OPERATION_TO_TOOL_MAP_basic)
   \<and> ''bogusOperation'' \<notin> set (dict_keys tool_name_map)
   \<and> map_parameters ''bogusOperation'' [] = Inl (UnknownOperation ''bogusOperation'')
   \<and> map_parameters_basic ''bogusOperation'' [] = Inl (UnknownOperation ''bogusOperation'')
   \<and> mcp_tool_name ''bogusOperation'' = ''SecurityMCPTools___'' @ ''bogusOperation''"
proof -
  have a: "''bogusOperation'' \<notin> set (dict_keys OPERATION_TO_TOOL_MAP)" by code_simp
  have b: "''bogusOperation'' \<notin> set (dict_keys OPERATION_TO_TOOL_MAP_basic)" by code_simp
  have c: "''bogusOperation'' \<notin> set (dict_keys tool_name_map)" by code_simp
  from a b c unknown_operation_fails [of "''bogusOperation''" "[]"] show ?thesis by blast
qed

section \<open>The end-to-end scenario\<close>

text \<open>
  C2, as stated, fails: \<^verbatim>\<open>service\<close> is required for \<^verbatim>\<open>GetSecurityFindings\<close> and has no
  default, so the call with region, severity and maxFindings alone is rejected.
\<close>

theorem get_findings_scenario_counterexample:
  "map_parameters ''getSecurityFindings''
     [bp ''region'' (PStr ''us-west-2''), bp ''severity'' (PStr ''HIGH''),
      bp ''maxFindings'' (PStr ''50'')]
   = Inl (MissingRequiredParameter [''service''])"
  by code_simp

text \<open>
  C2, amended. With region, severity and maxFindings alone the call fails, reporting
  \<^verbatim>\<open>service\<close> as the missing required parameter. With \<^verbatim>\<open>service\<close> supplied as well it
  succeeds, resolves to \<^verbatim>\<open>SecurityMCPTools___GetSecurityFindings\<close>, and returns the dict
  below (shown in insertion order): the converted inbound values and the defaults of
  \<^verbatim>\<open>aws_profile\<close> and \<^verbatim>\<open>check_enabled\<close>.
\<close>

theorem get_findings_scenario:
  "map_parameters ''getSecurityFindings''
     [bp ''region'' (PStr ''us-west-2''), bp ''severity'' (PStr ''HIGH''),
      bp ''maxFindings'' (PStr ''50'')]
   = Inl (MissingRequiredParameter [''service''])
   \<and> map_parameters ''getSecurityFindings''
     [bp ''region'' (PStr ''us-west-2''), bp ''service'' (PStr ''securityhub''),
      bp ''severity'' (PStr ''HIGH''), bp ''maxFindings'' (PStr ''50'')]
   = Inr (''SecurityMCPTools___GetSecurityFindings'',
         [(''region'', PStr ''us-west-2''), (''max_findings'', PInt 50),
          (''aws_profile'', PStr ''default''), (''check_enabled'', PBool True),
          (''service'', PStr ''securityhub''), (''severity_filter'', PStr ''HIGH'')])"
  by code_simp

section \<open>Calls with no inbound parameter\<close>

lemma seed_fold:
  assumes "distinct (dict_keys sig)" and "set (dict_keys acc) \<inter> set (dict_keys sig) = {}"
  shows "foldl (\<lambda>mapped_params (param_name, param_def).
              if param_default param_def \<noteq> PNone
              then dict_set mapped_params param_name (param_default param_def)
              else mapped_params) acc sig
         = acc @ map (\<lambda>(n, d). (n, param_default d))
                   (filter (\<lambda>(n, d). param_default d \<noteq> PNone) sig)"
  using assms
proof (induction sig arbitrary: acc)
  case Nil
  then show ?case by simp
next
  case (Cons a sig)
  obtain n d where a: "a = (n, d)" by (cases a)
  from Cons.prems a have fresh: "n \<notin> set (dict_keys acc)" and dist: "distinct (dict_keys sig)"
    and nn: "n \<notin> set (dict_keys sig)" and disj: "set (dict_keys acc) \<inter> set (dict_keys sig) = {}"
    by (auto simp: dict_keys_def)
  show ?case
  proof (cases "param_default d = PNone")
    case True
    with a Cons.IH [OF dist disj] show ?thesis by simp
  next
    case False
    have "set (dict_keys (acc @ [(n, param_default d)])) \<inter> set (dict_keys sig) = {}"
      using disj nn by (auto simp: dict_keys_def)
    from Cons.IH [OF dist this] False a fresh show ?thesis
      by (simp add: dict_set_fresh)
  qed
qed

lemma seed_defaults_eq:
  assumes "distinct (dict_keys sig)"
  shows "seed_defaults sig
         = map (\<lambda>(n, d). (n, param_default d)) (filter (\<lambda>(n, d). param_default d \<noteq> PNone) sig)"
  using seed_fold [OF assms, of "[]"] by (simp add: seed_defaults_def dict_keys_def)

lemma seed_defaults_get:
  assumes "distinct (dict_keys sig)" and "(n, d) \<in> set sig"
  shows "dict_get (seed_defaults sig) n
         = (if param_default d = PNone then None else Some (param_default d))"
proof -
  have "map_of (map (\<lambda>(n, d). (n, param_default d)) (filter (\<lambda>(n, d). param_default d \<noteq> PNone) sig)) n
        = (if param_default d = PNone then None else Some (param_default d))"
    using assms
  proof (induction sig)
    case Nil
    then show ?case by simp
  next
    case (Cons a sig)
    then show ?case
      by (cases a) (force simp: dict_keys_def map_of_eq_None_iff image_iff)
  qed
  then show ?thesis by (simp add: seed_defaults_eq [OF assms(1)] dict_get_def)
qed

lemma seed_defaults_no_None: "distinct (dict_keys sig) \<Longrightarrow> (k, PNone) \<notin> set (seed_defaults sig)"
  by (auto simp: seed_defaults_eq)

lemma missing_params_seed:
  assumes "distinct (dict_keys sig)"
  shows "missing_params sig (seed_defaults sig) = required_without_default sig"
proof -
  have "filter (\<lambda>(param_name, param_def).
                param_required param_def
                \<and> (dict_get (seed_defaults sig) param_name = None
                   \<or> dict_get (seed_defaults sig) param_name = Some PNone)) sig
        = filter (\<lambda>(param_name, param_def).
                param_required param_def \<and> param_default param_def = PNone) sig"
    by (rule filter_cong) (auto simp: seed_defaults_get [OF assms] split: if_splits)
  then show ?thesis by (simp add: missing_params_def required_without_default_def)
qed

lemma map_with_empty:
  assumes "distinct (dict_keys sig)"
  shows "map_with tool sig pm []
         = (if required_without_default sig = [] then Inr (tool, seed_defaults sig)
            else Inl (MissingRequiredParameter (required_without_default sig)))"
proof -
  have "filter (\<lambda>(k, v). v \<noteq> PNone) (seed_defaults sig) = seed_defaults sig"
    using seed_defaults_no_None [OF assms] by (auto simp: filter_id_conv)
  then show ?thesis
    by (simp add: map_with_def missing_params_seed [OF assms])
qed

lemma basic_rows_ok: "list_all operation_row_ok_basic OPERATION_TO_TOOL_MAP_basic"
  by code_simp

lemma known_operation_basic:
  assumes "dict_get OPERATION_TO_TOOL_MAP_basic op = Some tool"
  shows "operation_row_ok_basic (op, tool)"
proof -
  from assms have "(op, tool) \<in> set OPERATION_TO_TOOL_MAP_basic"
    by (simp add: dict_get_def map_of_SomeD)
  with basic_rows_ok show ?thesis by (simp add: list_all_iff)
qed

text \<open>
  C3. For every operation id of the operation map, of the complete mapper and of the basic
  mapper alike, \<^verbatim>\<open>map_parameters\<close> with an empty inbound list succeeds exactly when no
  required parameter of the resolved tool has a null default, and when it fails the error
  is the missing-required-parameter error listing exactly those parameter names.
\<close>

theorem empty_inbound_defaults:
  "(\<forall>op tool. dict_get OPERATION_TO_TOOL_MAP op = Some tool \<longrightarrow>
      (\<exists>sig. dict_get GATEWAY_TOOL_SIGNATURES tool = Some sig
         \<and> ((\<exists>r. map_parameters op [] = Inr r) \<longleftrightarrow> required_without_default sig = [])
         \<and> ((\<nexists>r. map_parameters op [] = Inr r) \<longrightarrow>
              map_parameters op []
                = Inl (MissingRequiredParameter (required_without_default sig)))))
   \<and> (\<forall>op tool. dict_get OPERATION_TO_TOOL_MAP_basic op = Some tool \<longrightarrow>
      (\<exists>sig. dict_get GATEWAY_TOOL_SIGNATURES_basic tool = Some sig
         \<and> ((\<exists>r. map_parameters_basic op [] = Inr r) \<longleftrightarrow> required_without_default sig = [])
         \<and> ((\<nexists>r. map_parameters_basic op [] = Inr r) \<longrightarrow>
              map_parameters_basic op []
                = Inl (MissingRequiredParameter (required_without_default sig)))))"
proof (intro conjI allI impI)
  fix op tool
  assume op: "dict_get OPERATION_TO_TOOL_MAP op = Some tool"
  from known_operation [OF op] obtain sig where
    sig: "dict_get GATEWAY_TOOL_SIGNATURES tool = Some sig" and ne: "tool \<noteq> []"
    and ok: "tables_consistent sig (param_map_of tool)"
    by blast
  from ok have dist: "distinct (dict_keys sig)" by (simp add: tables_consistent_def)
  have eq: "map_parameters op [] = map_with tool sig (param_map_of tool) []"
    using op sig ne by (rule map_parameters_known)
  show "\<exists>sig. dict_get GATEWAY_TOOL_SIGNATURES tool = Some sig
         \<and> ((\<exists>r. map_parameters op [] = Inr r) \<longleftrightarrow> required_without_default sig = [])
         \<and> ((\<nexists>r. map_parameters op [] = Inr r) \<longrightarrow>
              map_parameters op []
                = Inl (MissingRequiredParameter (required_without_default sig)))"
    using sig by (simp add: eq map_with_empty [OF dist])
next
  fix op tool
  assume "dict_get OPERATION_TO_TOOL_MAP_basic op = Some tool"
  from known_operation_basic [OF this]
  show "\<exists>sig. dict_get GATEWAY_TOOL_SIGNATURES_basic tool = Some sig
         \<and> ((\<exists>r. map_parameters_basic op [] = Inr r) \<longleftrightarrow> required_without_default sig = [])
         \<and> ((\<nexists>r. map_parameters_basic op [] = Inr r) \<longrightarrow>
              map_parameters_basic op []
                = Inl (MissingRequiredParameter (required_without_default sig)))"
    by (auto simp: operation_row_ok_basic_def split: option.splits sum.splits)
qed

theorem empty_inbound_defaults_witness:
  "dict_get OPERATION_TO_TOOL_MAP ''getSecurityFindings'' = Some ''SecurityMCPTools___GetSecurityFindings''
   \<and> dict_get OPERATION_TO_TOOL_MAP_basic ''checkSecurityStatus'' = Some ''SecurityMCPTools___CheckSecurityServices''
   \<and> map_parameters ''getSecurityFindings'' [] = Inl (MissingRequiredParameter [''service''])
   \<and> (\<exists>r. map_parameters_basic ''checkSecurityStatus'' [] = Inr r)"
proof -
  have a: "dict_get OPERATION_TO_TOOL_MAP ''getSecurityFindings'' = Some ''SecurityMCPTools___GetSecurityFindings''"
    by code_simp
  have c: "dict_get OPERATION_TO_TOOL_MAP_basic ''checkSecurityStatus'' = Some ''SecurityMCPTools___CheckSecurityServices''"
    by code_simp
  have ra: "required_without_default
              (the (dict_get GATEWAY_TOOL_SIGNATURES ''SecurityMCPTools___GetSecurityFindings''))
            = [''service'']"
    by code_simp
  have rc: "required_without_default
              (the (dict_get GATEWAY_TOOL_SIGNATURES_basic ''SecurityMCPTools___CheckSecurityServices''))
            = []"
    by code_simp
  from empty_inbound_defaults a obtain sig where
    s1: "dict_get GATEWAY_TOOL_SIGNATURES ''SecurityMCPTools___GetSecurityFindings'' = Some sig"
    and s2: "(\<exists>r. map_parameters ''getSecurityFindings'' [] = Inr r) \<longleftrightarrow> required_without_default sig = []"
    and s3: "(\<nexists>r. map_parameters ''getSecurityFindings'' [] = Inr r) \<longrightarrow>
              map_parameters ''getSecurityFindings'' []
                = Inl (MissingRequiredParameter (required_without_default sig))"
    by blast
  from s1 ra have "required_without_default sig = [''service'']" by simp
  with s2 s3 have 1: "map_parameters ''getSecurityFindings'' [] = Inl (MissingRequiredParameter [''service''])"
    by simp
  from empty_inbound_defaults c obtain sig' where
    t1: "dict_get GATEWAY_TOOL_SIGNATURES_basic ''SecurityMCPTools___CheckSecurityServices'' = Some sig'"
    and t2: "(\<exists>r. map_parameters_basic ''checkSecurityStatus'' [] = Inr r) \<longleftrightarrow> required_without_default sig' = []"
    by blast
  from t1 rc have "required_without_default sig' = []" by simp
  with t2 have 2: "\<exists>r. map_parameters_basic ''checkSecurityStatus'' [] = Inr r" by simp
  from a c 1 2 show ?thesis by simp
qed

section \<open>Parameters the complete mapper skips\<close>

lemma map_with_skip:
  assumes "\<And>m. map_one sig pm m p = m"
  shows "map_with tool sig pm (xs @ p # ys) = map_with tool sig pm (xs @ ys)"
  by (simp add: map_with_def assms)

lemma map_parameters_skip:
  assumes "\<And>tool sig m. dict_get OPERATION_TO_TOOL_MAP op = Some tool
              \<Longrightarrow> dict_get GATEWAY_TOOL_SIGNATURES tool = Some sig
              \<Longrightarrow> map_one sig (param_map_of tool) m p = m"
  shows "map_parameters op (xs @ p # ys) = map_parameters op (xs @ ys)"
proof (cases "dict_get OPERATION_TO_TOOL_MAP op")
  case None
  then show ?thesis by (simp add: map_parameters_def)
next
  case (Some tool)
  have "map_with tool sig (param_map_of tool) (xs @ p # ys)
        = map_with tool sig (param_map_of tool) (xs @ ys)"
    if "dict_get GATEWAY_TOOL_SIGNATURES tool = Some sig" for sig
    by (rule map_with_skip) (rule assms [OF Some that])
  with Some show ?thesis by (simp add: map_parameters_def split: option.splits)
qed

lemma map_one_skip_empty:
  "bp_name p = None \<or> bp_name p = Some [] \<or> bp_value p = PNone \<Longrightarrow> map_one sig pm m p = m"
  by (auto simp: map_one_def split: option.splits)

lemma map_one_skip_unknown:
  "n \<notin> set (dict_keys pm) \<Longrightarrow> map_one sig pm m (bp n v) = m"
  by (simp add: map_one_def bp_def dict_get_absent)

lemma map_one_skip_bad_int:
  "dict_get pm n = Some g \<Longrightarrow> expected_type_of sig g = ''integer'' \<Longrightarrow> py_int v = None
     \<Longrightarrow> map_one sig pm m (bp n v) = m"
  by (simp add: map_one_def bp_def coerce_def)

lemma map_with_no_None: "map_with tool sig pm ps = Inr (t, m) \<Longrightarrow> (k, PNone) \<notin> set m"
  by (auto simp: map_with_def Let_def split: if_splits)

lemma map_with_not_coercion_error: "map_with tool sig pm ps \<noteq> Inl (TypeCoercionError a b c)"
  by (simp add: map_with_def Let_def)

lemma map_parameters_cases:
  "map_parameters op ps = Inl (UnknownOperation op)
   \<or> (\<exists>tool. map_parameters op ps = Inl (UnknownTool tool))
   \<or> (\<exists>tool sig. dict_get OPERATION_TO_TOOL_MAP op = Some tool
         \<and> map_parameters op ps = map_with tool sig (param_map_of tool) ps)"
  by (auto simp: map_parameters_def split: option.splits)

lemma map_parameters_no_None:
  assumes "map_parameters op ps = Inr (t, m)"
  shows "(k, PNone) \<notin> set m"
  using map_parameters_cases [of op ps] assms map_with_no_None by fastforce

lemma map_parameters_not_coercion_error:
  "map_parameters op ps \<noteq> Inl (TypeCoercionError a b c)"
  using map_parameters_cases [of op ps] map_with_not_coercion_error by fastforce

subsection \<open>Keys of the result\<close>

lemma map_one_keys:
  "set (dict_keys (map_one sig pm m p)) \<subseteq> set (dict_keys m) \<union> snd ` set pm"
proof -
  have "g \<in> snd ` set pm" if "dict_get pm n = Some g" for n g
    using that by (force simp: dict_get_def dest: map_of_SomeD)
  then show ?thesis
    by (auto simp: map_one_def dict_keys_dict_set split: option.splits)
qed

lemma map_loop_keys:
  "set (dict_keys (foldl (map_one sig pm) m ps)) \<subseteq> set (dict_keys m) \<union> snd ` set pm"
proof (induction ps arbitrary: m)
  case Nil
  then show ?case by simp
next
  case (Cons p ps)
  from Cons.IH [of "map_one sig pm m p"] map_one_keys [of sig pm m p]
  show ?case by auto
qed

lemma seed_defaults_keys:
  "distinct (dict_keys sig) \<Longrightarrow> set (dict_keys (seed_defaults sig)) \<subseteq> set (dict_keys sig)"
  by (force simp: seed_defaults_eq dict_keys_def)

lemma map_with_keys:
  assumes "tables_consistent sig pm" and "map_with tool sig pm ps = Inr (t, m)"
  shows "set (dict_keys m) \<subseteq> set (dict_keys sig)"
proof -
  from assms(1) have dist: "distinct (dict_keys sig)"
    and vals: "snd ` set pm \<subseteq> set (dict_keys sig)"
    by (auto simp: tables_consistent_def list_all_iff)
  let ?M = "foldl (map_one sig pm) (seed_defaults sig) ps"
  from assms(2) have "m = filter (\<lambda>(k, v). v \<noteq> PNone) ?M"
    by (auto simp: map_with_def Let_def split: if_splits)
  then have "set (dict_keys m) \<subseteq> set (dict_keys ?M)"
    by (auto simp: dict_keys_def)
  also have "\<dots> \<subseteq> set (dict_keys (seed_defaults sig)) \<union> snd ` set pm"
    by (rule map_loop_keys)
  also have "\<dots> \<subseteq> set (dict_keys sig)"
    using seed_defaults_keys [OF dist] vals by auto
  finally show ?thesis .
qed

lemma unknown_not_declared:
  "tables_consistent sig pm \<Longrightarrow> n \<notin> set (dict_keys pm) \<Longrightarrow> n \<notin> set (dict_keys sig)"
  by (auto simp: tables_consistent_def list_all_iff)

text \<open>
  C10. In the complete mapper an inbound parameter whose value is null, or whose name is
  missing or empty, is skipped: the call returns exactly what it returns without that
  parameter, so it overwrites no default, raises nothing and adds no entry. No entry of a
  returned dict has the value \<^verbatim>\<open>None\<close>.
\<close>

theorem empty_parameters_skipped:
  "(bp_name p = None \<or> bp_name p = Some [] \<or> bp_value p = PNone
      \<longrightarrow> map_parameters op (xs @ p # ys) = map_parameters op (xs @ ys))
   \<and> (\<forall>t m k. map_parameters op ps = Inr (t, m) \<longrightarrow> (k, PNone) \<notin> set m)"
proof (intro conjI impI allI)
  assume "bp_name p = None \<or> bp_name p = Some [] \<or> bp_value p = PNone"
  then show "map_parameters op (xs @ p # ys) = map_parameters op (xs @ ys)"
    by (intro map_parameters_skip map_one_skip_empty)
next
  fix t m k
  assume "map_parameters op ps = Inr (t, m)"
  then show "(k, PNone) \<notin> set m" by (rule map_parameters_no_None)
qed

theorem empty_parameters_skipped_witness:
  "map_parameters ''getStoredContext''
     [bp ''region'' (PStr ''eu-west-1''), bp ''detailed'' PNone,
      \<lparr>bp_name = None, bp_value = PBool True\<rparr>, bp [] (PStr ''x'')]
   = Inr (''SecurityMCPTools___GetStoredSecurityContext'',
          [(''region'', PStr ''eu-west-1''), (''detailed'', PBool False)])"
proof -
  have 1: "map_parameters ''getStoredContext''
             ([bp ''region'' (PStr ''eu-west-1'')] @ bp ''detailed'' PNone
                # [\<lparr>bp_name = None, bp_value = PBool True\<rparr>, bp [] (PStr ''x'')])
           = map_parameters ''getStoredContext''
             ([bp ''region'' (PStr ''eu-west-1'')]
                @ [\<lparr>bp_name = None, bp_value = PBool True\<rparr>, bp [] (PStr ''x'')])"
    using empty_parameters_skipped [where p = "bp ''detailed'' PNone" and op = "''getStoredContext''"
        and xs = "[bp ''region'' (PStr ''eu-west-1'')]"
        and ys = "[\<lparr>bp_name = None, bp_value = PBool True\<rparr>, bp [] (PStr ''x'')]"]
    by (simp add: bp_def)
  have 2: "map_parameters ''getStoredContext''
             ([bp ''region'' (PStr ''eu-west-1'')] @ \<lparr>bp_name = None, bp_value = PBool True\<rparr>
                # [bp [] (PStr ''x'')])
           = map_parameters ''getStoredContext''
             ([bp ''region'' (PStr ''eu-west-1'')] @ [bp [] (PStr ''x'')])"
    using empty_parameters_skipped [where p = "\<lparr>bp_name = None, bp_value = PBool True\<rparr>"
        and op = "''getStoredContext''" and xs = "[bp ''region'' (PStr ''eu-west-1'')]"
        and ys = "[bp [] (PStr ''x'')]"]
    by simp
  have 3: "map_parameters ''getStoredContext''
             ([bp ''region'' (PStr ''eu-west-1'')] @ bp [] (PStr ''x'') # [])
           = map_parameters ''getStoredContext'' ([bp ''region'' (PStr ''eu-west-1'')] @ [])"
    using empty_parameters_skipped [where p = "bp [] (PStr ''x'')" and op = "''getStoredContext''"
        and xs = "[bp ''region'' (PStr ''eu-west-1'')]" and ys = "[]"]
    by (simp add: bp_def)
  have 4: "map_parameters ''getStoredContext'' [bp ''region'' (PStr ''eu-west-1'')]
           = Inr (''SecurityMCPTools___GetStoredSecurityContext'',
                  [(''region'', PStr ''eu-west-1''), (''detailed'', PBool False)])"
    by code_simp
  from 1 2 3 4 show ?thesis by simp
qed

section \<open>The loop of the basic mapper\<close>

lemma map_loop_basic_append:
  "map_loop_basic sig pm m (xs @ ys)
   = (case map_loop_basic sig pm m xs of Inl e \<Rightarrow> Inl e | Inr m' \<Rightarrow> map_loop_basic sig pm m' ys)"
  by (induction xs arbitrary: m) (auto split: sum.splits)

lemma map_one_basic_keys_mono:
  "map_one_basic sig pm m p = Inr m' \<Longrightarrow> set (dict_keys m) \<subseteq> set (dict_keys m')"
  by (auto simp: map_one_basic_def Let_def dict_keys_dict_set split: if_splits option.splits)

lemma map_loop_basic_keys_mono:
  "map_loop_basic sig pm m ps = Inr m' \<Longrightarrow> set (dict_keys m) \<subseteq> set (dict_keys m')"
proof (induction ps arbitrary: m)
  case Nil
  then show ?case by simp
next
  case (Cons p ps)
  then obtain m1 where 1: "map_one_basic sig pm m p = Inr m1"
    and 2: "map_loop_basic sig pm m1 ps = Inr m'"
    by (auto split: sum.splits)
  from map_one_basic_keys_mono [OF 1] Cons.IH [OF 2] show ?case by blast
qed

lemma map_one_basic_unknown_kept:
  assumes "n \<notin> set (dict_keys pm)" and "map_one_basic sig pm m (bp n v) = Inr m'"
  shows "Some n \<in> set (dict_keys m')"
  using assms
  by (auto simp: map_one_basic_def Let_def bp_def dict_get_absent dict_keys_dict_set
           split: if_splits option.splits)

lemma map_with_basic_unknown_kept:
  assumes "n \<notin> set (dict_keys pm)"
    and "map_with_basic tool sig pm (xs @ bp n v # ys) = Inr (t, m)"
  shows "Some n \<in> set (dict_keys m)"
proof -
  from assms(2) have loop: "map_loop_basic sig pm (seed_defaults_basic sig) (xs @ bp n v # ys) = Inr m"
    by (auto simp: map_with_basic_def split: sum.splits list.splits)
  then obtain m1 m2 where 1: "map_loop_basic sig pm (seed_defaults_basic sig) xs = Inr m1"
    and 2: "map_one_basic sig pm m1 (bp n v) = Inr m2"
    and 3: "map_loop_basic sig pm m2 ys = Inr m"
    by (auto simp: map_loop_basic_append split: sum.splits)
  from map_one_basic_unknown_kept [OF assms(1) 2] map_loop_basic_keys_mono [OF 3]
  show ?thesis by blast
qed

lemma map_parameters_basic_cases:
  "map_parameters_basic op ps = Inl (UnknownOperation op)
   \<or> (\<exists>tool. map_parameters_basic op ps = Inl (UnknownTool tool))
   \<or> (\<exists>tool sig. dict_get OPERATION_TO_TOOL_MAP_basic op = Some tool
         \<and> dict_get GATEWAY_TOOL_SIGNATURES_basic tool = Some sig
         \<and> map_parameters_basic op ps = map_with_basic tool sig (param_map_of_basic tool) ps)"
  by (auto simp: map_parameters_basic_def split: option.splits)

section \<open>Inbound names without an alias entry\<close>

text \<open>
  C6, as stated, fails in the basic mapper: \<^verbatim>\<open>param_map.get(bedrock_name, bedrock_name)\<close>
  falls back to the inbound name, so a name without an alias entry is kept in the result.
\<close>

theorem basic_mapper_keeps_unknown_counterexample:
  "''maxFindings'' \<notin> set (dict_keys (param_map_of_basic ''SecurityMCPTools___GetSecurityFindings''))
   \<and> map_parameters_basic ''getSecurityFindings'' [bp ''maxFindings'' (PStr ''50'')]
     = Inr (''SecurityMCPTools___GetSecurityFindings'',
            [(Some ''region'', PStr ''us-east-1''), (Some ''severity'', PStr ''ALL''),
             (Some ''limit'', PInt 100), (Some ''maxFindings'', PStr ''50'')])"
  by code_simp

text \<open>
  C6, amended. In the complete mapper an inbound parameter whose name has no alias entry
  for the resolved tool is dropped: the call returns exactly what it returns without that
  parameter, and the name is no key of the returned arguments. The basic mapper does not
  drop it: whenever its call succeeds, the inbound name itself is a key of the result.
\<close>

theorem unknown_parameter_names:
  "(dict_get OPERATION_TO_TOOL_MAP op = Some tool
      \<and> n \<notin> set (dict_keys (param_map_of tool))
    \<longrightarrow> map_parameters op (xs @ bp n v # ys) = map_parameters op (xs @ ys)
        \<and> (\<forall>t m. map_parameters op (xs @ bp n v # ys) = Inr (t, m) \<longrightarrow> n \<notin> set (dict_keys m)))
   \<and> (dict_get OPERATION_TO_TOOL_MAP_basic op = Some tool
      \<and> n \<notin> set (dict_keys (param_map_of_basic tool))
    \<longrightarrow> (\<forall>t m. map_parameters_basic op (xs @ bp n v # ys) = Inr (t, m)
                \<longrightarrow> Some n \<in> set (dict_keys m)))"
proof (intro conjI impI allI)
  assume h: "dict_get OPERATION_TO_TOOL_MAP op = Some tool
      \<and> n \<notin> set (dict_keys (param_map_of tool))"
  then show "map_parameters op (xs @ bp n v # ys) = map_parameters op (xs @ ys)"
    by (intro map_parameters_skip) (simp add: map_one_skip_unknown)
next
  fix t m
  assume h: "dict_get OPERATION_TO_TOOL_MAP op = Some tool
      \<and> n \<notin> set (dict_keys (param_map_of tool))"
    and r: "map_parameters op (xs @ bp n v # ys) = Inr (t, m)"
  from h known_operation obtain sig where
    sig: "dict_get GATEWAY_TOOL_SIGNATURES tool = Some sig" and ne: "tool \<noteq> []"
    and ok: "tables_consistent sig (param_map_of tool)"
    by blast
  from h sig ne r have "map_with tool sig (param_map_of tool) (xs @ bp n v # ys) = Inr (t, m)"
    by (simp add: map_parameters_known)
  from map_with_keys [OF ok this] unknown_not_declared [OF ok] h
  show "n \<notin> set (dict_keys m)" by blast
next
  fix t m
  assume h: "dict_get OPERATION_TO_TOOL_MAP_basic op = Some tool
      \<and> n \<notin> set (dict_keys (param_map_of_basic tool))"
    and r: "map_parameters_basic op (xs @ bp n v # ys) = Inr (t, m)"
  from map_parameters_basic_cases [of op "xs @ bp n v # ys"] r h obtain sig where
    "map_with_basic tool sig (param_map_of_basic tool) (xs @ bp n v # ys) = Inr (t, m)"
    by auto
  with h show "Some n \<in> set (dict_keys m)"
    by (blast intro: map_with_basic_unknown_kept)
qed

theorem unknown_parameter_names_witness:
  "dict_get OPERATION_TO_TOOL_MAP ''listServicesInRegion'' = Some ''SecurityMCPTools___ListServicesInRegion''
   \<and> ''verbose'' \<notin> set (dict_keys (param_map_of ''SecurityMCPTools___ListServicesInRegion''))
   \<and> map_parameters ''listServicesInRegion''
        [bp ''region'' (PStr ''eu-west-1''), bp ''verbose'' (PStr ''yes'')]
      = Inr (''SecurityMCPTools___ListServicesInRegion'',
             [(''region'', PStr ''eu-west-1''), (''aws_profile'', PStr ''default''),
              (''store_in_context'', PBool True)])
   \<and> ''verbose'' \<notin> set (dict_keys [(''region'', PStr ''eu-west-1''), (''aws_profile'', PStr ''default''),
              (''store_in_context'', PBool True)])
   \<and> dict_get OPERATION_TO_TOOL_MAP_basic ''checkStorageEncryption''
        = Some ''SecurityMCPTools___CheckStorageEncryption''
   \<and> ''verbose'' \<notin> set (dict_keys (param_map_of_basic ''SecurityMCPTools___CheckStorageEncryption''))
   \<and> map_parameters_basic ''checkStorageEncryption'' [bp ''verbose'' (PStr ''yes'')]
      = Inr (''SecurityMCPTools___CheckStorageEncryption'',
             [(Some ''region'', PStr ''us-east-1''), (Some ''service_type'', PStr ''ALL''),
              (Some ''verbose'', PStr ''yes'')])
   \<and> Some ''verbose'' \<in> set (dict_keys [(Some ''region'', PStr ''us-east-1''),
              (Some ''service_type'', PStr ''ALL''), (Some ''verbose'', PStr ''yes'')])"
proof -
  have ba: "dict_get OPERATION_TO_TOOL_MAP_basic ''checkStorageEncryption''
        = Some ''SecurityMCPTools___CheckStorageEncryption''"
    by code_simp
  have bb: "''verbose'' \<notin> set (dict_keys (param_map_of_basic ''SecurityMCPTools___CheckStorageEncryption''))"
    by code_simp
  have bc: "map_parameters_basic ''checkStorageEncryption'' ([] @ bp ''verbose'' (PStr ''yes'') # [])
      = Inr (''SecurityMCPTools___CheckStorageEncryption'',
             [(Some ''region'', PStr ''us-east-1''), (Some ''service_type'', PStr ''ALL''),
              (Some ''verbose'', PStr ''yes'')])"
    by code_simp
  from unknown_parameter_names [where op = "''checkStorageEncryption''"
      and tool = "''SecurityMCPTools___CheckStorageEncryption''" and n = "''verbose''"
      and xs = "[]" and ys = "[]" and v = "PStr ''yes''"] ba bb bc
  have bd: "Some ''verbose'' \<in> set (dict_keys [(Some ''region'', PStr ''us-east-1''),
              (Some ''service_type'', PStr ''ALL''), (Some ''verbose'', PStr ''yes'')])"
    by blast
  from bc have bc': "map_parameters_basic ''checkStorageEncryption'' [bp ''verbose'' (PStr ''yes'')]
      = Inr (''SecurityMCPTools___CheckStorageEncryption'',
             [(Some ''region'', PStr ''us-east-1''), (Some ''service_type'', PStr ''ALL''),
              (Some ''verbose'', PStr ''yes'')])"
    by (simp only: append.simps)
  have a: "dict_get OPERATION_TO_TOOL_MAP ''listServicesInRegion'' = Some ''SecurityMCPTools___ListServicesInRegion''"
    by code_simp
  have b: "''verbose'' \<notin> set (dict_keys (param_map_of ''SecurityMCPTools___ListServicesInRegion''))"
    by code_simp
  have c: "map_parameters ''listServicesInRegion'' ([bp ''region'' (PStr ''eu-west-1'')] @ [])
      = Inr (''SecurityMCPTools___ListServicesInRegion'',
             [(''region'', PStr ''eu-west-1''), (''aws_profile'', PStr ''default''),
              (''store_in_context'', PBool True)])"
    by code_simp
  from unknown_parameter_names [where op = "''listServicesInRegion''"
      and tool = "''SecurityMCPTools___ListServicesInRegion''" and n = "''verbose''"
      and xs = "[bp ''region'' (PStr ''eu-west-1'')]" and ys = "[]" and v = "PStr ''yes''"] a b
  have d: "map_parameters ''listServicesInRegion''
             ([bp ''region'' (PStr ''eu-west-1'')] @ bp ''verbose'' (PStr ''yes'') # [])
           = map_parameters ''listServicesInRegion'' ([bp ''region'' (PStr ''eu-west-1'')] @ [])"
    and e: "\<forall>t m. map_parameters ''listServicesInRegion''
             ([bp ''region'' (PStr ''eu-west-1'')] @ bp ''verbose'' (PStr ''yes'') # []) = Inr (t, m)
             \<longrightarrow> ''verbose'' \<notin> set (dict_keys m)"
    by blast+
  from d c have f: "map_parameters ''listServicesInRegion''
             ([bp ''region'' (PStr ''eu-west-1'')] @ bp ''verbose'' (PStr ''yes'') # [])
      = Inr (''SecurityMCPTools___ListServicesInRegion'',
             [(''region'', PStr ''eu-west-1''), (''aws_profile'', PStr ''default''),
              (''store_in_context'', PBool True)])"
    by (rule trans)
  from e f have g: "''verbose'' \<notin> set (dict_keys [(''region'', PStr ''eu-west-1''), (''aws_profile'', PStr ''default''),
              (''store_in_context'', PBool True)])"
    by blast
  from f have f': "map_parameters ''listServicesInRegion''
        [bp ''region'' (PStr ''eu-west-1''), bp ''verbose'' (PStr ''yes'')]
      = Inr (''SecurityMCPTools___ListServicesInRegion'',
             [(''region'', PStr ''eu-west-1''), (''aws_profile'', PStr ''default''),
              (''store_in_context'', PBool True)])"
    by (simp only: append.simps)
  from a b f' g ba bb bc' bd show ?thesis by (intro conjI)
qed

section \<open>Integer conversion that fails\<close>

lemma map_one_basic_error:
  "map_one_basic sig pm m p = Inl e \<Longrightarrow> \<exists>a b. e = TypeCoercionError a b ''integer''"
  by (auto simp: map_one_basic_def Let_def split: if_splits option.splits)

lemma map_loop_basic_error:
  "map_loop_basic sig pm m ps = Inl e \<Longrightarrow> \<exists>a b. e = TypeCoercionError a b ''integer''"
proof (induction ps arbitrary: m)
  case Nil
  then show ?case by simp
next
  case (Cons p ps)
  then show ?case
    by (auto split: sum.splits dest: map_one_basic_error)
qed

lemma map_one_basic_bad_int:
  assumes "dict_get pm n = Some g" and "expected_type_of sig g = ''integer''" and "py_int v = None"
  shows "map_one_basic sig pm m (bp n v) = Inl (TypeCoercionError (Some n) v ''integer'')"
  using assms by (simp add: map_one_basic_def Let_def bp_def)

lemma map_with_basic_bad_int:
  assumes "dict_get pm n = Some g" and "expected_type_of sig g = ''integer''" and "py_int v = None"
  shows "\<exists>a b. map_with_basic tool sig pm (xs @ bp n v # ys) = Inl (TypeCoercionError a b ''integer'')"
proof (cases "map_loop_basic sig pm (seed_defaults_basic sig) xs")
  case (Inl e)
  from map_loop_basic_error [OF Inl] Inl show ?thesis
    by (auto simp: map_with_basic_def map_loop_basic_append)
next
  case (Inr m1)
  with map_one_basic_bad_int [OF assms, of m1] show ?thesis
    by (simp add: map_with_basic_def map_loop_basic_append)
qed

text \<open>
  C4, as stated, fails in the complete mapper: the \<^verbatim>\<open>ValueError\<close> of \<^verbatim>\<open>int('fifty')\<close> is
  caught by the \<^verbatim>\<open>except\<close> clause of the loop, the parameter is skipped, and the call
  succeeds with the default of \<^verbatim>\<open>max_findings\<close>.
\<close>

theorem bad_integer_dropped_counterexample:
  "map_parameters ''getSecurityFindings''
     [bp ''service'' (PStr ''guardduty''), bp ''maxFindings'' (PStr ''fifty'')]
   = Inr (''SecurityMCPTools___GetSecurityFindings'',
          [(''region'', PStr ''us-east-1''), (''max_findings'', PInt 100),
           (''aws_profile'', PStr ''default''), (''check_enabled'', PBool True),
           (''service'', PStr ''guardduty'')])"
  by code_simp

text \<open>
  C4, amended. When an inbound parameter resolves to a parameter of declared type integer
  and its value is a string that \<^verbatim>\<open>int()\<close> rejects, the complete mapper skips the
  parameter: the call returns exactly what it returns without it, so the raw value is not
  passed through, and no call of the complete mapper ever ends in a type-coercion error.
  In the basic mapper, which has no \<^verbatim>\<open>try\<close> block, the same parameter makes the call
  fail with the conversion error.
\<close>

theorem bad_integer_value:
  "(dict_get OPERATION_TO_TOOL_MAP op = Some tool
      \<and> dict_get GATEWAY_TOOL_SIGNATURES tool = Some sig
      \<and> dict_get (param_map_of tool) n = Some g
      \<and> expected_type_of sig g = ''integer'' \<and> int_of_str s = None
    \<longrightarrow> map_parameters op (xs @ bp n (PStr s) # ys) = map_parameters op (xs @ ys))
   \<and> (\<forall>a b c. map_parameters op ps \<noteq> Inl (TypeCoercionError a b c))
   \<and> (dict_get OPERATION_TO_TOOL_MAP_basic op = Some tool
      \<and> dict_get GATEWAY_TOOL_SIGNATURES_basic tool = Some sig
      \<and> dict_get (param_map_of_basic tool) n = Some g
      \<and> expected_type_of sig g = ''integer'' \<and> int_of_str s = None
    \<longrightarrow> (\<exists>a b. map_parameters_basic op (xs @ bp n (PStr s) # ys)
                  = Inl (TypeCoercionError a b ''integer'')))"
proof (intro conjI impI allI)
  assume h: "dict_get OPERATION_TO_TOOL_MAP op = Some tool
      \<and> dict_get GATEWAY_TOOL_SIGNATURES tool = Some sig
      \<and> dict_get (param_map_of tool) n = Some g
      \<and> expected_type_of sig g = ''integer'' \<and> int_of_str s = None"
  show "map_parameters op (xs @ bp n (PStr s) # ys) = map_parameters op (xs @ ys)"
  proof (rule map_parameters_skip)
    fix tool' sig' m
    assume "dict_get OPERATION_TO_TOOL_MAP op = Some tool'"
      and "dict_get GATEWAY_TOOL_SIGNATURES tool' = Some sig'"
    with h have "tool' = tool" "sig' = sig" by simp_all
    with h show "map_one sig' (param_map_of tool') m (bp n (PStr s)) = m"
      by (simp add: map_one_skip_bad_int)
  qed
next
  fix a b c
  show "map_parameters op ps \<noteq> Inl (TypeCoercionError a b c)"
    by (rule map_parameters_not_coercion_error)
next
  assume h: "dict_get OPERATION_TO_TOOL_MAP_basic op = Some tool
      \<and> dict_get GATEWAY_TOOL_SIGNATURES_basic tool = Some sig
      \<and> dict_get (param_map_of_basic tool) n = Some g
      \<and> expected_type_of sig g = ''integer'' \<and> int_of_str s = None"
  from known_operation_basic [of op tool] h have "tool \<noteq> []"
    by (simp add: operation_row_ok_basic_def)
  with h have "map_parameters_basic op (xs @ bp n (PStr s) # ys)
        = map_with_basic tool sig (param_map_of_basic tool) (xs @ bp n (PStr s) # ys)"
    by (simp add: map_parameters_basic_def)
  moreover from h have "\<exists>a b. map_with_basic tool sig (param_map_of_basic tool) (xs @ bp n (PStr s) # ys)
        = Inl (TypeCoercionError a b ''integer'')"
    by (intro map_with_basic_bad_int [where g = g]) simp_all
  ultimately show "\<exists>a b. map_parameters_basic op (xs @ bp n (PStr s) # ys)
                  = Inl (TypeCoercionError a b ''integer'')"
    by simp
qed

theorem bad_integer_value_witness:
  "int_of_str ''fifty'' = None
   \<and> dict_get (param_map_of ''SecurityMCPTools___GetSecurityFindings'') ''maxFindings''
       = Some ''max_findings''
   \<and> map_parameters ''getSecurityFindings''
       [bp ''service'' (PStr ''guardduty''), bp ''maxFindings'' (PStr ''fifty'')]
     = map_parameters ''getSecurityFindings'' [bp ''service'' (PStr ''guardduty'')]
   \<and> dict_get (param_map_of_basic ''SecurityMCPTools___GetSecurityFindings'') ''limit''
       = Some ''limit''
   \<and> (\<exists>a b. map_parameters_basic ''getSecurityFindings''
               [bp ''region'' (PStr ''us-west-2''), bp ''limit'' (PStr ''fifty'')]
             = Inl (TypeCoercionError a b ''integer''))"
proof -
  let ?T = "''SecurityMCPTools___GetSecurityFindings''"
  have i: "int_of_str ''fifty'' = None" by code_simp
  have a: "dict_get OPERATION_TO_TOOL_MAP ''getSecurityFindings'' = Some ?T" by code_simp
  have b: "dict_get (param_map_of ?T) ''maxFindings'' = Some ''max_findings''" by code_simp
  have c: "expected_type_of (the (dict_get GATEWAY_TOOL_SIGNATURES ?T)) ''max_findings'' = ''integer''"
    by code_simp
  have d: "dict_get GATEWAY_TOOL_SIGNATURES ?T \<noteq> None" by code_simp
  then have e: "dict_get GATEWAY_TOOL_SIGNATURES ?T = Some (the (dict_get GATEWAY_TOOL_SIGNATURES ?T))"
    by simp
  from bad_integer_value [where op = "''getSecurityFindings''" and tool = ?T
      and sig = "the (dict_get GATEWAY_TOOL_SIGNATURES ?T)" and n = "''maxFindings''"
      and g = "''max_findings''" and s = "''fifty''"
      and xs = "[bp ''service'' (PStr ''guardduty'')]" and ys = "[]"] a b c e i
  have 1: "map_parameters ''getSecurityFindings''
             ([bp ''service'' (PStr ''guardduty'')] @ bp ''maxFindings'' (PStr ''fifty'') # [])
           = map_parameters ''getSecurityFindings'' ([bp ''service'' (PStr ''guardduty'')] @ [])"
    by blast
  have a': "dict_get OPERATION_TO_TOOL_MAP_basic ''getSecurityFindings'' = Some ?T" by code_simp
  have b': "dict_get (param_map_of_basic ?T) ''limit'' = Some ''limit''" by code_simp
  have c': "expected_type_of (the (dict_get GATEWAY_TOOL_SIGNATURES_basic ?T)) ''limit'' = ''integer''"
    by code_simp
  have d': "dict_get GATEWAY_TOOL_SIGNATURES_basic ?T \<noteq> None" by code_simp
  then have e': "dict_get GATEWAY_TOOL_SIGNATURES_basic ?T
                  = Some (the (dict_get GATEWAY_TOOL_SIGNATURES_basic ?T))"
    by simp
  from bad_integer_value [where op = "''getSecurityFindings''" and tool = ?T
      and sig = "the (dict_get GATEWAY_TOOL_SIGNATURES_basic ?T)" and n = "''limit''"
      and g = "''limit''" and s = "''fifty''"
      and xs = "[bp ''region'' (PStr ''us-west-2'')]" and ys = "[]"] a' b' c' e' i
  have 2: "\<exists>a b. map_parameters_basic ''getSecurityFindings''
               ([bp ''region'' (PStr ''us-west-2'')] @ bp ''limit'' (PStr ''fifty'') # [])
             = Inl (TypeCoercionError a b ''integer'')"
    by blast
  from 1 have l1: "map_parameters ''getSecurityFindings''
       [bp ''service'' (PStr ''guardduty''), bp ''maxFindings'' (PStr ''fifty'')]
     = map_parameters ''getSecurityFindings'' [bp ''service'' (PStr ''guardduty'')]"
    by (simp only: append.simps)
  from 2 have l2: "\<exists>a b. map_parameters_basic ''getSecurityFindings''
               [bp ''region'' (PStr ''us-west-2''), bp ''limit'' (PStr ''fifty'')]
             = Inl (TypeCoercionError a b ''integer'')"
    by (simp only: append.simps)
  from i b l1 b' l2 show ?thesis by (intro conjI)
qed

section \<open>Coercion of the inbound values\<close>

lemma alias_names_nonempty:
  assumes "tables_consistent sig pm" and "dict_get pm n = Some g"
  shows "n \<noteq> [] \<and> g \<noteq> []"
proof -
  from assms(2) have "(n, g) \<in> set pm" by (simp add: dict_get_def map_of_SomeD)
  with assms(1) show ?thesis by (auto simp: tables_consistent_def list_all_iff)
qed

lemma map_one_coerced:
  assumes "dict_get pm n = Some g" and "n \<noteq> []" and "g \<noteq> []" and "v \<noteq> PNone"
    and "coerce (expected_type_of sig g) v = Some w"
  shows "map_one sig pm m (bp n v) = dict_set m g w"
  using assms by (simp add: map_one_def bp_def)

lemma dict_get_filter_not_None:
  "w \<noteq> PNone \<Longrightarrow> dict_get d k = Some w
     \<Longrightarrow> dict_get (filter (\<lambda>(k, v). v \<noteq> PNone) d) k = Some w"
  by (simp add: dict_get_def map_of_filter_in)

lemma map_with_last:
  assumes "map_one sig pm (foldl (map_one sig pm) (seed_defaults sig) xs) p
           = dict_set (foldl (map_one sig pm) (seed_defaults sig) xs) g w"
    and "w \<noteq> PNone" and "map_with tool sig pm (xs @ [p]) = Inr (t, m)"
  shows "dict_get m g = Some w"
proof -
  let ?M = "dict_set (foldl (map_one sig pm) (seed_defaults sig) xs) g w"
  from assms(1,3) have "m = filter (\<lambda>(k, v). v \<noteq> PNone) ?M"
    by (auto simp: map_with_def Let_def split: if_splits)
  moreover have "dict_get ?M g = Some w" by (simp add: dict_get_dict_set)
  ultimately show ?thesis using assms(2) by (simp add: dict_get_filter_not_None)
qed

lemma coerce_boolean: "coerce ''boolean'' v = Some (PBool (spec_boolean v))"
  by (cases v) (simp_all add: coerce_def spec_boolean_def)

lemma coerce_array: "coerce ''array'' v = Some (spec_array v)"
  by (cases v) (simp_all add: coerce_def spec_array_def)

lemma spec_array_not_None: "spec_array v \<noteq> PNone"
  by (cases v) (simp_all add: spec_array_def)

text \<open>
  The registry of the basic mapper declares no parameter of type boolean, so the boolean
  branch of its loop is never taken.
\<close>

lemma basic_registry_no_boolean:
  "''boolean'' \<notin> set (declared_types GATEWAY_TOOL_SIGNATURES_basic)"
  by code_simp

text \<open>
  C7. When an inbound parameter resolves to a parameter of declared type boolean, the value
  stored for it is the boolean the specification describes: a boolean as it is; a string
  true exactly when its lower-case form is one of \<^verbatim>\<open>true\<close>, \<^verbatim>\<open>1\<close>, \<^verbatim>\<open>yes\<close>, \<^verbatim>\<open>on\<close>,
  false otherwise and without error; any other value by truthiness. This holds for the
  step of the loop and for the value a successful call returns for the last parameter.
\<close>

theorem boolean_coercion:
  "dict_get OPERATION_TO_TOOL_MAP op = Some tool
     \<and> dict_get GATEWAY_TOOL_SIGNATURES tool = Some sig
     \<and> dict_get (param_map_of tool) n = Some g
     \<and> expected_type_of sig g = ''boolean'' \<and> v \<noteq> PNone
   \<longrightarrow> (\<forall>m. map_one sig (param_map_of tool) m (bp n v) = dict_set m g (PBool (spec_boolean v)))
       \<and> (\<forall>t m. map_parameters op (xs @ [bp n v]) = Inr (t, m)
              \<longrightarrow> dict_get m g = Some (PBool (spec_boolean v)))"
proof (intro impI)
  assume h: "dict_get OPERATION_TO_TOOL_MAP op = Some tool
     \<and> dict_get GATEWAY_TOOL_SIGNATURES tool = Some sig
     \<and> dict_get (param_map_of tool) n = Some g
     \<and> expected_type_of sig g = ''boolean'' \<and> v \<noteq> PNone"
  from h known_operation [of op tool] have ne: "tool \<noteq> []"
    and ok: "tables_consistent sig (param_map_of tool)"
    by auto
  from alias_names_nonempty [OF ok] h have names: "n \<noteq> []" "g \<noteq> []" by auto
  have step: "map_one sig (param_map_of tool) m (bp n v) = dict_set m g (PBool (spec_boolean v))"
    for m
    using h names by (intro map_one_coerced) (simp_all add: coerce_boolean)
  have "dict_get m g = Some (PBool (spec_boolean v))"
    if "map_parameters op (xs @ [bp n v]) = Inr (t, m)" for t m
  proof -
    from h ne that have "map_with tool sig (param_map_of tool) (xs @ [bp n v]) = Inr (t, m)"
      by (simp add: map_parameters_known)
    with step show ?thesis by (intro map_with_last [where w = "PBool (spec_boolean v)"]) simp_all
  qed
  with step show "(\<forall>m. map_one sig (param_map_of tool) m (bp n v) = dict_set m g (PBool (spec_boolean v)))
       \<and> (\<forall>t m. map_parameters op (xs @ [bp n v]) = Inr (t, m)
              \<longrightarrow> dict_get m g = Some (PBool (spec_boolean v)))"
    by blast
qed

theorem boolean_coercion_witness:
  "spec_boolean (PStr ''TRUE'') \<and> spec_boolean (PStr ''On'') \<and> spec_boolean (PStr ''1'')
   \<and> spec_boolean (PStr ''yEs'') \<and> \<not> spec_boolean (PStr ''false'') \<and> \<not> spec_boolean (PStr ''no'')
   \<and> \<not> spec_boolean (PStr ''banana'') \<and> \<not> spec_boolean (PStr []) \<and> spec_boolean (PInt 2)
   \<and> \<not> spec_boolean (PBool False)
   \<and> map_parameters ''checkStorageEncryption''
        [bp ''region'' (PStr ''eu-west-1''), bp ''unencryptedOnly'' (PStr ''On'')]
      = Inr (''SecurityMCPTools___CheckStorageEncryption'',
             [(''region'', PStr ''eu-west-1''),
              (''services'', strs [''s3'', ''ebs'', ''rds'', ''dynamodb'', ''efs'', ''elasticache'']),
              (''include_unencrypted_only'', PBool True),
              (''aws_profile'', PStr ''default''), (''store_in_context'', PBool True)])
   \<and> dict_get [(''region'', PStr ''eu-west-1''),
              (''services'', strs [''s3'', ''ebs'', ''rds'', ''dynamodb'', ''efs'', ''elasticache'']),
              (''include_unencrypted_only'', PBool True),
              (''aws_profile'', PStr ''default''), (''store_in_context'', PBool True)]
         ''include_unencrypted_only'' = Some (PBool (spec_boolean (PStr ''On'')))"
proof -
  let ?T = "''SecurityMCPTools___CheckStorageEncryption''"
  let ?m = "[(''region'', PStr ''eu-west-1''),
              (''services'', strs [''s3'', ''ebs'', ''rds'', ''dynamodb'', ''efs'', ''elasticache'']),
              (''include_unencrypted_only'', PBool True),
              (''aws_profile'', PStr ''default''), (''store_in_context'', PBool True)]"
  have v: "spec_boolean (PStr ''TRUE'') \<and> spec_boolean (PStr ''On'') \<and> spec_boolean (PStr ''1'')
   \<and> spec_boolean (PStr ''yEs'') \<and> \<not> spec_boolean (PStr ''false'') \<and> \<not> spec_boolean (PStr ''no'')
   \<and> \<not> spec_boolean (PStr ''banana'') \<and> \<not> spec_boolean (PStr []) \<and> spec_boolean (PInt 2)
   \<and> \<not> spec_boolean (PBool False)"
    by code_simp
  have a: "dict_get OPERATION_TO_TOOL_MAP ''checkStorageEncryption'' = Some ?T" by code_simp
  have b: "dict_get (param_map_of ?T) ''unencryptedOnly'' = Some ''include_unencrypted_only''"
    by code_simp
  have c: "expected_type_of (the (dict_get GATEWAY_TOOL_SIGNATURES ?T)) ''include_unencrypted_only''
           = ''boolean''"
    by code_simp
  have "dict_get GATEWAY_TOOL_SIGNATURES ?T \<noteq> None" by code_simp
  then have e: "dict_get GATEWAY_TOOL_SIGNATURES ?T = Some (the (dict_get GATEWAY_TOOL_SIGNATURES ?T))"
    by simp
  have r: "map_parameters ''checkStorageEncryption''
             ([bp ''region'' (PStr ''eu-west-1'')] @ [bp ''unencryptedOnly'' (PStr ''On'')])
           = Inr (?T, ?m)"
    by code_simp
  have nn: "PStr ''On'' \<noteq> PNone" by simp
  from boolean_coercion [where op = "''checkStorageEncryption''" and tool = ?T
      and sig = "the (dict_get GATEWAY_TOOL_SIGNATURES ?T)" and n = "''unencryptedOnly''"
      and g = "''include_unencrypted_only''" and v = "PStr ''On''"
      and xs = "[bp ''region'' (PStr ''eu-west-1'')]"] a b c e nn r
  have k: "dict_get ?m ''include_unencrypted_only'' = Some (PBool (spec_boolean (PStr ''On'')))"
    by blast
  from r have r': "map_parameters ''checkStorageEncryption''
             [bp ''region'' (PStr ''eu-west-1''), bp ''unencryptedOnly'' (PStr ''On'')]
           = Inr (?T, ?m)"
    by (simp only: append.simps)
  from v r' k show ?thesis by blast
qed

section \<open>Array coercion\<close>

text \<open>\<^verbatim>\<open>split\<close> cuts at the separators and nowhere else: joining the segments with the
  separator gives the text back, and no segment holds the separator.\<close>

lemma py_split_nonempty: "py_split s sep \<noteq> []"
  by (induction s) (auto split: list.splits)

lemma py_split_join: "join [sep] (py_split s sep) = s"
proof (induction s)
  case Nil
  then show ?case by simp
next
  case (Cons c cs)
  obtain w ws where ws: "py_split cs sep = w # ws"
    using py_split_nonempty [of cs sep] by (cases "py_split cs sep") auto
  with Cons show ?case by (cases ws) auto
qed

lemma py_split_no_sep: "w \<in> set (py_split s sep) \<Longrightarrow> sep \<notin> set w"
proof (induction s arbitrary: w)
  case Nil
  then show ?case by simp
next
  case (Cons c cs)
  then show ?case
    by (cases "py_split cs sep") (auto split: if_splits)
qed

lemma map_one_basic_array:
  assumes "dict_get pm n = Some g" and "expected_type_of sig g = ''array''"
  shows "map_one_basic sig pm m (bp n v)
         = Inr (dict_set m (Some g) (case v of PList l \<Rightarrow> v | _ \<Rightarrow> PList [v]))"
  using assms by (simp add: map_one_basic_def Let_def bp_def)

lemma map_with_basic_last:
  assumes "\<And>m. map_one_basic sig pm m p = Inr (dict_set m g w)"
    and "map_with_basic tool sig pm (xs @ [p]) = Inr (t, m)"
  shows "dict_get m g = Some w"
proof -
  from assms(2) have "map_loop_basic sig pm (seed_defaults_basic sig) (xs @ [p]) = Inr m"
    by (auto simp: map_with_basic_def split: sum.splits list.splits)
  then obtain m1 where "map_one_basic sig pm m1 p = Inr m"
    by (auto simp: map_loop_basic_append split: sum.splits)
  with assms(1) [of m1] have "m = dict_set m1 g w" by simp
  then show ?thesis by (simp add: dict_get_dict_set)
qed

text \<open>
  C8, as stated, fails in the basic mapper: a value that is no list is wrapped as it is, so
  a string with commas becomes a one-element list and is not split.
\<close>

theorem basic_mapper_no_split_counterexample:
  "expected_type_of (the (dict_get GATEWAY_TOOL_SIGNATURES_basic ''SecurityMCPTools___CheckSecurityServices''))
     ''service_names'' = ''array''
   \<and> map_parameters_basic ''checkSecurityStatus'' [bp ''services'' (PStr ''s3,ebs,rds'')]
     = Inr (''SecurityMCPTools___CheckSecurityServices'',
            [(Some ''region'', PStr ''us-east-1''),
             (Some ''service_names'', PList [PStr ''s3,ebs,rds''])])"
  by code_simp

text \<open>
  C8, amended. In the complete mapper, when an inbound parameter resolves to a parameter of
  declared type array, the value stored is the one the specification describes: a list as
  it is; a string with a comma split on commas, each segment trimmed; any other value (a
  comma-free string, or the \<^verbatim>\<open>str()\<close> text of a non-string) wrapped in a one-element
  list. In the basic mapper a list is stored as it is and every other value, a string with
  commas included, is wrapped unchanged in a one-element list. Both hold for the step of
  the loop and for the value a successful call returns for the last parameter.
\<close>

theorem array_coercion:
  "(dict_get OPERATION_TO_TOOL_MAP op = Some tool
      \<and> dict_get GATEWAY_TOOL_SIGNATURES tool = Some sig
      \<and> dict_get (param_map_of tool) n = Some g
      \<and> expected_type_of sig g = ''array'' \<and> v \<noteq> PNone
    \<longrightarrow> (\<forall>m. map_one sig (param_map_of tool) m (bp n v) = dict_set m g (spec_array v))
        \<and> (\<forall>t m. map_parameters op (xs @ [bp n v]) = Inr (t, m)
               \<longrightarrow> dict_get m g = Some (spec_array v)))
   \<and> (dict_get OPERATION_TO_TOOL_MAP_basic op = Some tool
      \<and> dict_get GATEWAY_TOOL_SIGNATURES_basic tool = Some sig
      \<and> dict_get (param_map_of_basic tool) n = Some g
      \<and> expected_type_of sig g = ''array''
    \<longrightarrow> (\<forall>m. map_one_basic sig (param_map_of_basic tool) m (bp n v)
               = Inr (dict_set m (Some g) (case v of PList l \<Rightarrow> v | _ \<Rightarrow> PList [v])))
        \<and> (\<forall>t m. map_parameters_basic op (xs @ [bp n v]) = Inr (t, m)
               \<longrightarrow> dict_get m (Some g) = Some (case v of PList l \<Rightarrow> v | _ \<Rightarrow> PList [v])))"
proof (intro conjI impI)
  assume h: "dict_get OPERATION_TO_TOOL_MAP op = Some tool
      \<and> dict_get GATEWAY_TOOL_SIGNATURES tool = Some sig
      \<and> dict_get (param_map_of tool) n = Some g
      \<and> expected_type_of sig g = ''array'' \<and> v \<noteq> PNone"
  from h known_operation [of op tool] have ne: "tool \<noteq> []"
    and ok: "tables_consistent sig (param_map_of tool)"
    by auto
  from alias_names_nonempty [OF ok] h have names: "n \<noteq> []" "g \<noteq> []" by auto
  have step: "map_one sig (param_map_of tool) m (bp n v) = dict_set m g (spec_array v)" for m
    using h names by (intro map_one_coerced) (simp_all add: coerce_array)
  then show "\<forall>m. map_one sig (param_map_of tool) m (bp n v) = dict_set m g (spec_array v)"
    by blast
  show "\<forall>t m. map_parameters op (xs @ [bp n v]) = Inr (t, m)
               \<longrightarrow> dict_get m g = Some (spec_array v)"
  proof (intro allI impI)
    fix t m
    assume "map_parameters op (xs @ [bp n v]) = Inr (t, m)"
    with h ne have "map_with tool sig (param_map_of tool) (xs @ [bp n v]) = Inr (t, m)"
      by (simp add: map_parameters_known)
    with step show "dict_get m g = Some (spec_array v)"
      by (intro map_with_last [where w = "spec_array v"]) (simp_all add: spec_array_not_None)
  qed
next
  assume h: "dict_get OPERATION_TO_TOOL_MAP_basic op = Some tool
      \<and> dict_get GATEWAY_TOOL_SIGNATURES_basic tool = Some sig
      \<and> dict_get (param_map_of_basic tool) n = Some g
      \<and> expected_type_of sig g = ''array''"
  let ?w = "case v of PList l \<Rightarrow> v | _ \<Rightarrow> PList [v]"
  have step: "map_one_basic sig (param_map_of_basic tool) m (bp n v)
               = Inr (dict_set m (Some g) ?w)" for m
    using h by (intro map_one_basic_array) simp_all
  then show "\<forall>m. map_one_basic sig (param_map_of_basic tool) m (bp n v)
               = Inr (dict_set m (Some g) ?w)"
    by blast
  show "\<forall>t m. map_parameters_basic op (xs @ [bp n v]) = Inr (t, m)
               \<longrightarrow> dict_get m (Some g) = Some ?w"
  proof (intro allI impI)
    fix t m
    assume r: "map_parameters_basic op (xs @ [bp n v]) = Inr (t, m)"
    from known_operation_basic [of op tool] h have "tool \<noteq> []"
      by (simp add: operation_row_ok_basic_def)
    with h r have "map_with_basic tool sig (param_map_of_basic tool) (xs @ [bp n v]) = Inr (t, m)"
      by (simp add: map_parameters_basic_def)
    with step show "dict_get m (Some g) = Some ?w"
      by (intro map_with_basic_last [where w = ?w])
  qed
qed

theorem array_coercion_witness:
  "spec_array (PStr ''s3,ebs,rds'') = strs [''s3'', ''ebs'', ''rds'']
   \<and> spec_array (PStr ''s3, ebs ,rds'') = strs [''s3'', ''ebs'', ''rds'']
   \<and> spec_array (PStr ''s3'') = strs [''s3'']
   \<and> spec_array (strs [''s3'', ''ebs'']) = strs [''s3'', ''ebs'']
   \<and> spec_array (PInt 7) = strs [''7'']
   \<and> map_parameters ''checkNetworkSecurity''
        [bp ''region'' (PStr ''eu-west-1''), bp ''service'' (PStr ''elb,vpc'')]
      = Inr (''SecurityMCPTools___CheckNetworkSecurity'',
             [(''region'', PStr ''eu-west-1''), (''services'', strs [''elb'', ''vpc'']),
              (''include_non_compliant_only'', PBool False),
              (''aws_profile'', PStr ''default''), (''store_in_context'', PBool True)])
   \<and> dict_get [(''region'', PStr ''eu-west-1''), (''services'', strs [''elb'', ''vpc'']),
              (''include_non_compliant_only'', PBool False),
              (''aws_profile'', PStr ''default''), (''store_in_context'', PBool True)] ''services''
      = Some (spec_array (PStr ''elb,vpc''))
   \<and> map_parameters_basic ''checkSecurityStatus'' [bp ''service'' (PStr ''EC2'')]
      = Inr (''SecurityMCPTools___CheckSecurityServices'',
             [(Some ''region'', PStr ''us-east-1''), (Some ''service_names'', PList [PStr ''EC2''])])
   \<and> dict_get [(Some ''region'', PStr ''us-east-1''), (Some ''service_names'', PList [PStr ''EC2''])]
        (Some ''service_names'') = Some (PList [PStr ''EC2''])"
proof -
  let ?T = "''SecurityMCPTools___CheckNetworkSecurity''"
  let ?m = "[(''region'', PStr ''eu-west-1''), (''services'', strs [''elb'', ''vpc'']),
              (''include_non_compliant_only'', PBool False),
              (''aws_profile'', PStr ''default''), (''store_in_context'', PBool True)]"
  let ?B = "''SecurityMCPTools___CheckSecurityServices''"
  let ?mb = "[(Some ''region'', PStr ''us-east-1''), (Some ''service_names'', PList [PStr ''EC2''])]"
  have v: "spec_array (PStr ''s3,ebs,rds'') = strs [''s3'', ''ebs'', ''rds'']
   \<and> spec_array (PStr ''s3, ebs ,rds'') = strs [''s3'', ''ebs'', ''rds'']
   \<and> spec_array (PStr ''s3'') = strs [''s3'']
   \<and> spec_array (strs [''s3'', ''ebs'']) = strs [''s3'', ''ebs'']
   \<and> spec_array (PInt 7) = strs [''7'']"
    by code_simp
  have a: "dict_get OPERATION_TO_TOOL_MAP ''checkNetworkSecurity'' = Some ?T" by code_simp
  have b: "dict_get (param_map_of ?T) ''service'' = Some ''services''" by code_simp
  have c: "expected_type_of (the (dict_get GATEWAY_TOOL_SIGNATURES ?T)) ''services'' = ''array''"
    by code_simp
  have "dict_get GATEWAY_TOOL_SIGNATURES ?T \<noteq> None" by code_simp
  then have e: "dict_get GATEWAY_TOOL_SIGNATURES ?T = Some (the (dict_get GATEWAY_TOOL_SIGNATURES ?T))"
    by simp
  have r: "map_parameters ''checkNetworkSecurity''
             ([bp ''region'' (PStr ''eu-west-1'')] @ [bp ''service'' (PStr ''elb,vpc'')])
           = Inr (?T, ?m)"
    by code_simp
  have nn: "PStr ''elb,vpc'' \<noteq> PNone" by simp
  from array_coercion [where op = "''checkNetworkSecurity''" and tool = ?T
      and sig = "the (dict_get GATEWAY_TOOL_SIGNATURES ?T)" and n = "''service''"
      and g = "''services''" and v = "PStr ''elb,vpc''"
      and xs = "[bp ''region'' (PStr ''eu-west-1'')]"] a b c e nn r
  have k: "dict_get ?m ''services'' = Some (spec_array (PStr ''elb,vpc''))"
    by blast
  have a': "dict_get OPERATION_TO_TOOL_MAP_basic ''checkSecurityStatus'' = Some ?B" by code_simp
  have b': "dict_get (param_map_of_basic ?B) ''service'' = Some ''service_names''" by code_simp
  have c': "expected_type_of (the (dict_get GATEWAY_TOOL_SIGNATURES_basic ?B)) ''service_names'' = ''array''"
    by code_simp
  have "dict_get GATEWAY_TOOL_SIGNATURES_basic ?B \<noteq> None" by code_simp
  then have e': "dict_get GATEWAY_TOOL_SIGNATURES_basic ?B
                 = Some (the (dict_get GATEWAY_TOOL_SIGNATURES_basic ?B))"
    by simp
  have r': "map_parameters_basic ''checkSecurityStatus'' ([] @ [bp ''service'' (PStr ''EC2'')])
            = Inr (?B, ?mb)"
    by code_simp
  from array_coercion [where op = "''checkSecurityStatus''" and tool = ?B
      and sig = "the (dict_get GATEWAY_TOOL_SIGNATURES_basic ?B)" and n = "''service''"
      and g = "''service_names''" and v = "PStr ''EC2''" and xs = "[]"] a' b' c' e' r'
  have k': "dict_get ?mb (Some ''service_names'') = Some (case PStr ''EC2'' of PList l \<Rightarrow> PStr ''EC2'' | _ \<Rightarrow> PList [PStr ''EC2''])"
    by blast
  then have k2: "dict_get ?mb (Some ''service_names'') = Some (PList [PStr ''EC2''])"
    by (simp only: pyval.case)
  from r have r1: "map_parameters ''checkNetworkSecurity''
             [bp ''region'' (PStr ''eu-west-1''), bp ''service'' (PStr ''elb,vpc'')]
           = Inr (?T, ?m)"
    by (simp only: append.simps)
  from r' have r2: "map_parameters_basic ''checkSecurityStatus'' [bp ''service'' (PStr ''EC2'')]
            = Inr (?B, ?mb)"
    by (simp only: append.simps)
  from v r1 k r2 k2 show ?thesis by blast
qed

end
